theory Spec2Isabelle
  imports Complex_Main "HOL-Library.Sublist"
begin

section \<open>Blockly rendering and connection core\<close>

text \<open>
  A shallow embedding of the thrasos render-info pass, the geras path object
  (\<^verbatim>\<open>src/core/renderers/geras/path_object.js\<close>), the rendered connection
  (\<^verbatim>\<open>src/unnamed/part_001\<close>) and the theme manager's workspace list
  (\<^verbatim>\<open>src/core/theme_manager.js\<close>).

  JavaScript numbers are modelled as \<^typ>\<open>real\<close>: arithmetic is exact, so no
  statement below depends on IEEE rounding. The values \<^verbatim>\<open>null\<close> and
  \<^verbatim>\<open>undefined\<close> of an object-valued expression are \<^term>\<open>None\<close>.
  A thrown \<^verbatim>\<open>Error\<close> is the left injection of a sum type.
\<close>

subsection \<open>Measurables, their type tags and the rendering constants\<close>

text \<open>
  Modelled from the spec: \<^verbatim>\<open>Blockly.blockRendering.Types\<close> and the
  \<^verbatim>\<open>Measurable\<close> base classes are not in the sources. A measurable carries a
  type-tag bitmask with multi-membership (the input constructors of
  \<^verbatim>\<open>src/unnamed/part_000\<close> extend it with \<^verbatim>\<open>this.type |= ...\<close>); the bitmask is
  the set of its tags, and each \<^verbatim>\<open>Types.isX(elem)\<close> tests one tag.
\<close>

datatype mtag =
    FIELD | HAT | ICON | SPACER | IN_ROW_SPACER
  | CONNECTION | INPUT | INLINE_INPUT | STATEMENT_INPUT | EXTERNAL_VALUE_INPUT
  | PREVIOUS_CONNECTION | NEXT_CONNECTION | OUTPUT_CONNECTION
  | LEFT_SQUARE_CORNER | LEFT_ROUNDED_CORNER | RIGHT_SQUARE_CORNER | RIGHT_ROUNDED_CORNER
  | JAGGED_EDGE

text \<open>
  The fields of a measurable that the render-info pass reads or writes.
  \<open>isEditable\<close> is \<^term>\<open>None\<close> where the property is undefined (only fields
  define it).
\<close>

record measurable =
  mtype :: "mtag set"
  width :: real
  isEditable :: "bool option"
  notchOffset :: real

definition isField :: "measurable \<Rightarrow> bool" where
  "isField elem = (FIELD \<in> mtype elem)"

definition isHat :: "measurable \<Rightarrow> bool" where
  "isHat elem = (HAT \<in> mtype elem)"

definition isIcon :: "measurable \<Rightarrow> bool" where
  "isIcon elem = (ICON \<in> mtype elem)"

definition isSpacer :: "measurable \<Rightarrow> bool" where
  "isSpacer elem = (SPACER \<in> mtype elem)"

definition isInput :: "measurable \<Rightarrow> bool" where
  "isInput elem = (INPUT \<in> mtype elem)"

definition isInlineInput :: "measurable \<Rightarrow> bool" where
  "isInlineInput elem = (INLINE_INPUT \<in> mtype elem)"

definition isStatementInput :: "measurable \<Rightarrow> bool" where
  "isStatementInput elem = (STATEMENT_INPUT \<in> mtype elem)"

definition isExternalInput :: "measurable \<Rightarrow> bool" where
  "isExternalInput elem = (EXTERNAL_VALUE_INPUT \<in> mtype elem)"

definition isPreviousConnection :: "measurable \<Rightarrow> bool" where
  "isPreviousConnection elem = (PREVIOUS_CONNECTION \<in> mtype elem)"

definition isNextConnection :: "measurable \<Rightarrow> bool" where
  "isNextConnection elem = (NEXT_CONNECTION \<in> mtype elem)"

definition isPreviousOrNextConnection :: "measurable \<Rightarrow> bool" where
  "isPreviousOrNextConnection elem =
     (PREVIOUS_CONNECTION \<in> mtype elem \<or> NEXT_CONNECTION \<in> mtype elem)"

definition isLeftSquareCorner :: "measurable \<Rightarrow> bool" where
  "isLeftSquareCorner elem = (LEFT_SQUARE_CORNER \<in> mtype elem)"

definition isLeftRoundedCorner :: "measurable \<Rightarrow> bool" where
  "isLeftRoundedCorner elem = (LEFT_ROUNDED_CORNER \<in> mtype elem)"

definition isJaggedEdge :: "measurable \<Rightarrow> bool" where
  "isJaggedEdge elem = (JAGGED_EDGE \<in> mtype elem)"

text \<open>
  The rendering-constants provider \<^verbatim>\<open>this.constants_\<close> is an external
  collaborator: a record of the named numbers the pass reads.
\<close>

record constants =
  NO_PADDING :: real
  SMALL_PADDING :: real
  MEDIUM_PADDING :: real
  MEDIUM_LARGE_PADDING :: real
  LARGE_PADDING :: real
  STATEMENT_INPUT_PADDING_LEFT :: real
  MIN_BLOCK_WIDTH :: real
  MIN_BLOCK_HEIGHT :: real
  CORNER_RADIUS :: real
  TAB_WIDTH :: real
  NOTCH_OFFSET_LEFT :: real

text \<open>JavaScript truthiness of a property that is undefined, true or false.\<close>

definition truthy :: "bool option \<Rightarrow> bool" where
  "truthy b = (b = Some True)"

text \<open>\<^verbatim>\<open>next && P(next)\<close>: false on \<^verbatim>\<open>null\<close> and \<^verbatim>\<open>undefined\<close>.\<close>

definition nonnull_and :: "measurable option \<Rightarrow> (measurable \<Rightarrow> bool) \<Rightarrow> bool" where
  "nonnull_and next P = (case next of None \<Rightarrow> False | Some n \<Rightarrow> P n)"

subsection \<open>\<^verbatim>\<open>getInRowSpacing_\<close>\<close>

text \<open>
  The pairwise rule table, branch by branch in the order of the source (a
  trailing underscore of a source name is dropped: it is not an Isabelle name). The
  first case is \<^verbatim>\<open>if (!prev)\<close>; every later test of \<^verbatim>\<open>next\<close> is a null test.
\<close>

definition getInRowSpacing ::
  "constants \<Rightarrow> measurable option \<Rightarrow> measurable option \<Rightarrow> real" where
  "getInRowSpacing c prev next =
    (case prev of
      None \<Rightarrow>
        if nonnull_and next (\<lambda>n. isField n \<and> truthy (isEditable n)) then MEDIUM_PADDING c
        else if nonnull_and next isInlineInput then MEDIUM_LARGE_PADDING c
        else if nonnull_and next isStatementInput then STATEMENT_INPUT_PADDING_LEFT c
        else LARGE_PADDING c
    | Some p \<Rightarrow>
        if \<not> isInput p \<and> next = None then
          (if isField p \<and> truthy (isEditable p) then MEDIUM_PADDING c
           else if isIcon p then (LARGE_PADDING c * 2) + 1
           else if isHat p then NO_PADDING c
           else if isPreviousOrNextConnection p then LARGE_PADDING c
           else if isLeftRoundedCorner p then MIN_BLOCK_WIDTH c
           else if isJaggedEdge p then NO_PADDING c
           else LARGE_PADDING c)
        else if isInput p \<and> next = None \<and> isExternalInput p then NO_PADDING c
        else if isInput p \<and> next = None \<and> isInlineInput p then LARGE_PADDING c
        else if isInput p \<and> next = None \<and> isStatementInput p then NO_PADDING c
        else if \<not> isInput p \<and> nonnull_and next isInput then
          (if truthy (isEditable p) then
             (if nonnull_and next isInlineInput then SMALL_PADDING c
              else if nonnull_and next isExternalInput then SMALL_PADDING c
              else LARGE_PADDING c - 1)
           else
             (if nonnull_and next isInlineInput then MEDIUM_LARGE_PADDING c
              else if nonnull_and next isExternalInput then MEDIUM_LARGE_PADDING c
              else if nonnull_and next isStatementInput then LARGE_PADDING c
              else LARGE_PADDING c - 1))
        else if isIcon p \<and> nonnull_and next (\<lambda>n. \<not> isInput n) then LARGE_PADDING c
        else if isInlineInput p \<and> nonnull_and next (\<lambda>n. \<not> isInput n) then
          (if nonnull_and next (\<lambda>n. truthy (isEditable n)) then MEDIUM_PADDING c
           else LARGE_PADDING c)
        else if isLeftSquareCorner p \<and> nonnull_and next isHat then NO_PADDING c
        else if isLeftSquareCorner p
                \<and> nonnull_and next (\<lambda>n. isPreviousConnection n \<or> isNextConnection n)
          then (case next of Some n \<Rightarrow> notchOffset n | None \<Rightarrow> 0)
        else if isLeftRoundedCorner p \<and> next \<noteq> None
          then (case next of Some n \<Rightarrow> notchOffset n - CORNER_RADIUS c | None \<Rightarrow> 0)
        else if \<not> isInput p
                \<and> nonnull_and next (\<lambda>n. \<not> isInput n \<and> isEditable p = isEditable n)
          then LARGE_PADDING c
        else if nonnull_and next isJaggedEdge then LARGE_PADDING c
        else MEDIUM_PADDING c)"

text \<open>
  The guards of the enumerated rules: a pair is matched by a rule when one of
  the returning branches before the final \<^verbatim>\<open>return\<close> is taken.
\<close>

definition matches_enumerated_rule :: "measurable option \<Rightarrow> measurable option \<Rightarrow> bool" where
  "matches_enumerated_rule prev next =
    (case prev of
      None \<Rightarrow> True
    | Some p \<Rightarrow>
        (\<not> isInput p \<and> next = None)
        \<or> (isInput p \<and> next = None
              \<and> (isExternalInput p \<or> isInlineInput p \<or> isStatementInput p))
        \<or> (\<not> isInput p \<and> nonnull_and next isInput)
        \<or> (isIcon p \<and> nonnull_and next (\<lambda>n. \<not> isInput n))
        \<or> (isInlineInput p \<and> nonnull_and next (\<lambda>n. \<not> isInput n))
        \<or> (isLeftSquareCorner p
              \<and> nonnull_and next (\<lambda>n. isHat n \<or> isPreviousConnection n \<or> isNextConnection n))
        \<or> (isLeftRoundedCorner p \<and> next \<noteq> None)
        \<or> (\<not> isInput p
              \<and> nonnull_and next (\<lambda>n. \<not> isInput n \<and> isEditable p = isEditable n))
        \<or> nonnull_and next isJaggedEdge)"

subsection \<open>Rows and the render info\<close>

text \<open>
  The alignments \<^verbatim>\<open>Blockly.ALIGN_LEFT\<close>, \<^verbatim>\<open>Blockly.ALIGN_CENTRE\<close> and
  \<^verbatim>\<open>Blockly.ALIGN_RIGHT\<close> (constants that are not in the sources).
\<close>

datatype alignment = ALIGN_LEFT | ALIGN_CENTRE | ALIGN_RIGHT

text \<open>
  A row of the block. An entry of \<open>elements\<close> is \<^term>\<open>None\<close> where the array
  holds \<^verbatim>\<open>undefined\<close>. \<open>row_width\<close> and \<open>row_height\<close> are the row's
  \<^verbatim>\<open>width\<close> and \<^verbatim>\<open>height\<close>; \<open>align\<close> is \<^term>\<open>None\<close> where the row has no
  alignment. \<open>startsWithElemSpacer\<close> and \<open>endsWithElemSpacer\<close> are the results of
  the row's boundary predicates of the same names (methods of the row classes,
  which are not in the sources). \<open>ascenderHeight\<close> and \<open>capline\<close> are read on the
  top row, \<open>descenderHeight\<close> and \<open>baseline\<close> on the bottom row.
\<close>

record row =
  elements :: "measurable option list"
  row_height :: real
  row_width :: real
  widthWithConnectedBlocks :: real
  yPos :: real
  xPos :: real
  hasExternalInput :: bool
  hasStatement :: bool
  hasDummyInput :: bool
  align :: "alignment option"
  startsWithElemSpacer :: bool
  endsWithElemSpacer :: bool
  ascenderHeight :: real
  descenderHeight :: real
  capline :: real
  baseline :: real

text \<open>
  The render info of one block. \<open>topRow\<close> and \<open>bottomRow\<close> are references to
  row objects of \<open>rows\<close>: positions in the list.
\<close>

record render_info =
  rows :: "row list"
  topRow :: nat
  bottomRow :: nat
  startX :: real
  height :: real
  widthWithChildren :: real
  startY :: real

subsection \<open>\<^verbatim>\<open>addElemSpacing_\<close>\<close>

text \<open>
  Modelled from the spec: the constructor \<^verbatim>\<open>Blockly.blockRendering.InRowSpacer\<close>
  is not in the sources. It makes a spacer measurable of the width it is given.
\<close>

definition InRowSpacer :: "constants \<Rightarrow> real \<Rightarrow> measurable" where
  "InRowSpacer c w =
     \<lparr>mtype = {SPACER, IN_ROW_SPACER}, width = w, isEditable = None,
      notchOffset = NOTCH_OFFSET_LEFT c\<rparr>"

text \<open>Array reads: an index outside the array reads \<^verbatim>\<open>undefined\<close>.\<close>

definition js_first :: "'a option list \<Rightarrow> 'a option" where
  "js_first xs = (case xs of [] \<Rightarrow> None | x # _ \<Rightarrow> x)"

definition js_last :: "'a option list \<Rightarrow> 'a option" where
  "js_last xs = (if xs = [] then None else last xs)"

text \<open>
  The loop \<^verbatim>\<open>for (e = 0; e < oldElems.length - 1; e++)\<close>: each element but the
  last, followed by the spacer between it and its successor.
\<close>

fun spaced_pairs :: "constants \<Rightarrow> measurable option list \<Rightarrow> measurable option list" where
  "spaced_pairs c (x # y # ys) =
     x # Some (InRowSpacer c (getInRowSpacing c x y)) # spaced_pairs c (y # ys)"
| "spaced_pairs c [x] = []"
| "spaced_pairs c [] = []"

text \<open>The first loop: does any row have an external input.\<close>

fun hasExternalInputs_loop :: "bool \<Rightarrow> row list \<Rightarrow> bool" where
  "hasExternalInputs_loop acc [] = acc"
| "hasExternalInputs_loop acc (r # rs) =
     hasExternalInputs_loop (if hasExternalInput r then True else acc) rs"

text \<open>The body of the second loop, for one row.\<close>

definition addElemSpacing_row :: "constants \<Rightarrow> bool \<Rightarrow> row \<Rightarrow> row" where
  "addElemSpacing_row c hasExternalInputs r =
    (let oldElems = elements r;
         leading =
           (if startsWithElemSpacer r
            then [Some (InRowSpacer c (getInRowSpacing c None (js_first oldElems)))]
            else []);
         middle = spaced_pairs c oldElems @ [js_last oldElems];
         trailing =
           (if endsWithElemSpacer r then
              (let spacing = getInRowSpacing c (js_last oldElems) None;
                   spacing1 =
                     (if hasExternalInputs \<and> hasDummyInput r
                      then spacing + TAB_WIDTH c else spacing)
               in [Some (InRowSpacer c spacing1)])
            else [])
     in r\<lparr>elements := leading @ middle @ trailing\<rparr>)"

definition addElemSpacing :: "constants \<Rightarrow> render_info \<Rightarrow> render_info" where
  "addElemSpacing c info =
    (let hasExternalInputs = hasExternalInputs_loop False (rows info)
     in info\<lparr>rows := map (addElemSpacing_row c hasExternalInputs) (rows info)\<rparr>)"

subsection \<open>\<^verbatim>\<open>addAlignmentPadding_\<close>\<close>

datatype error =
    TypeError
  | BlockNotRendered
  | ShadowNotRespawned
  | WorkspaceNotSubscribed

text \<open>
  Modelled from the spec: \<^verbatim>\<open>Row.getFirstSpacer\<close> and \<^verbatim>\<open>Row.getLastSpacer\<close> are
  not in the sources. They return the leading and the trailing spacer of the
  row, the first and the last element that is a spacer, or \<^verbatim>\<open>null\<close> when the
  row has none. The object returned is an element of the row: its position.
\<close>

definition is_spacer_elem :: "measurable option \<Rightarrow> bool" where
  "is_spacer_elem e = (case e of None \<Rightarrow> False | Some m \<Rightarrow> isSpacer m)"

fun first_spacer_from :: "nat \<Rightarrow> measurable option list \<Rightarrow> nat option" where
  "first_spacer_from i [] = None"
| "first_spacer_from i (e # es) =
     (if is_spacer_elem e then Some i else first_spacer_from (Suc i) es)"

fun last_spacer_from :: "nat \<Rightarrow> measurable option list \<Rightarrow> nat option" where
  "last_spacer_from i [] = None"
| "last_spacer_from i (e # es) =
     (case last_spacer_from (Suc i) es of
        Some j \<Rightarrow> Some j
      | None \<Rightarrow> if is_spacer_elem e then Some i else None)"

definition getFirstSpacer :: "row \<Rightarrow> nat option" where
  "getFirstSpacer r = first_spacer_from 0 (elements r)"

definition getLastSpacer :: "row \<Rightarrow> nat option" where
  "getLastSpacer r = last_spacer_from 0 (elements r)"

text \<open>
  \<^verbatim>\<open>spacer.width += d\<close> on the element a spacer reference points to; on
  \<^verbatim>\<open>null\<close> the property access throws a TypeError.
\<close>

definition add_width :: "nat \<Rightarrow> real \<Rightarrow> row \<Rightarrow> row" where
  "add_width i d r =
     r\<lparr>elements :=
         (elements r)[i := map_option (\<lambda>m. m\<lparr>width := width m + d\<rparr>) (elements r ! i)]\<rparr>"

definition spacer_add_width :: "nat option \<Rightarrow> real \<Rightarrow> row \<Rightarrow> error + row" where
  "spacer_add_width spacer d r =
     (case spacer of None \<Rightarrow> Inl TypeError | Some i \<Rightarrow> Inr (add_width i d r))"

definition addAlignmentPadding :: "row \<Rightarrow> real \<Rightarrow> error + row" where
  "addAlignmentPadding r missingSpace =
    (let firstSpacer = getFirstSpacer r;
         lastSpacer = getLastSpacer r;
         r1 = (if hasExternalInput r \<or> hasStatement r
               then r\<lparr>widthWithConnectedBlocks := widthWithConnectedBlocks r + missingSpace\<rparr>
               else r);
         padded =
           (if align r1 = Some ALIGN_LEFT then spacer_add_width lastSpacer missingSpace r1
            else if align r1 = Some ALIGN_CENTRE then
              (case spacer_add_width firstSpacer (missingSpace / 2) r1 of
                 Inl e \<Rightarrow> Inl e
               | Inr r2 \<Rightarrow> spacer_add_width lastSpacer (missingSpace / 2) r2)
            else if align r1 = Some ALIGN_RIGHT then spacer_add_width firstSpacer missingSpace r1
            else spacer_add_width lastSpacer missingSpace r1)
     in case padded of
          Inl e \<Rightarrow> Inl e
        | Inr r3 \<Rightarrow> Inr (r3\<lparr>row_width := row_width r3 + missingSpace\<rparr>))"

text \<open>The width of the element at a position of a row.\<close>

definition width_at :: "row \<Rightarrow> nat \<Rightarrow> real" where
  "width_at r i = (case elements r ! i of None \<Rightarrow> 0 | Some m \<Rightarrow> width m)"

subsection \<open>\<^verbatim>\<open>finalize_\<close>\<close>

text \<open>
  The body of the loop over the rows, for the row at position \<open>i\<close>, with the
  loop variables \<open>yCursor\<close> and \<open>widestRowWithConnectedBlocks\<close>.
  \<^verbatim>\<open>row == this.bottomRow\<close> compares references. \<^verbatim>\<open>recordElemPositions_\<close> (not
  in the sources) positions the elements of the row and writes no field of a
  row; it is left out.
\<close>

definition finalize_body ::
  "constants \<Rightarrow> nat \<Rightarrow> real \<Rightarrow> real \<Rightarrow> render_info \<Rightarrow> real \<times> real \<times> render_info" where
  "finalize_body c i yCursor widest info =
    (let r = rows info ! i;
         info1 = info\<lparr>rows := (rows info)[i := r\<lparr>yPos := yCursor, xPos := startX info\<rparr>]\<rparr>;
         yCursor1 = yCursor + row_height r;
         widest1 = max widest (widthWithConnectedBlocks r);
         heightWithoutHat = yCursor1 - ascenderHeight (rows info1 ! topRow info1)
     in if i = bottomRow info1 \<and> heightWithoutHat < MIN_BLOCK_HEIGHT c then
          (let diff = MIN_BLOCK_HEIGHT c - heightWithoutHat;
               b = rows info1 ! bottomRow info1;
               info2 = info1\<lparr>rows :=
                 (rows info1)[bottomRow info1 := b\<lparr>row_height := row_height b + diff\<rparr>]\<rparr>
           in (yCursor1 + diff, widest1, info2))
        else (yCursor1, widest1, info1))"

text \<open>The loop \<^verbatim>\<open>for (i = 0; (row = this.rows[i]); i++)\<close>: it ends past the last row.\<close>

function finalize_loop ::
  "constants \<Rightarrow> nat \<Rightarrow> real \<Rightarrow> real \<Rightarrow> render_info \<Rightarrow> real \<times> real \<times> render_info" where
  "finalize_loop c i yCursor widest info =
    (if i < length (rows info) then
       (case finalize_body c i yCursor widest info of
          (yCursor1, widest1, info1) \<Rightarrow> finalize_loop c (i + 1) yCursor1 widest1 info1)
     else (yCursor, widest, info))"
  by pat_completeness auto
termination
proof (relation "measure (\<lambda>(c, i, yCursor, widest, info). length (rows info) - i)")
  show "wf (measure (\<lambda>(c, i, yCursor, widest, info). length (rows info) - i))" by simp
next
  fix c i yCursor widest info x xa y xb ya
  assume "i < length (rows info)"
    and "(x, y) = finalize_body c i yCursor widest info" and "(xb, ya) = y"
  then have "ya = snd (snd (finalize_body c i yCursor widest info))"
    by (metis snd_conv)
  then have "length (rows ya) = length (rows info)"
    by (simp add: finalize_body_def Let_def)
  with \<open>i < length (rows info)\<close>
  show "((c, i + 1, x, xb, ya), c, i, yCursor, widest, info)
        \<in> measure (\<lambda>(c, i, yCursor, widest, info). length (rows info) - i)"
    by simp
qed

text \<open>The whole pass: the loop from the first row, then the block-level results.\<close>

definition finalize :: "constants \<Rightarrow> render_info \<Rightarrow> render_info" where
  "finalize c info =
    (case finalize_loop c 0 0 0 info of
       (yCursor, widest, info1) \<Rightarrow>
         (let b = rows info1 ! bottomRow info1;
              info2 = info1\<lparr>rows :=
                (rows info1)[bottomRow info1 := b\<lparr>baseline := yCursor - descenderHeight b\<rparr>]\<rparr>
          in info2\<lparr>widthWithChildren := widest + startX info2,
                   height := yCursor,
                   startY := capline (rows info2 ! topRow info2)\<rparr>))"

subsection \<open>The path object\<close>

text \<open>
  An SVG element is the map of its attributes; \<^verbatim>\<open>setAttribute\<close> stores one.
  \<^verbatim>\<open>createSvgElement\<close> (an external helper) makes an element with the
  attributes it is given.
\<close>

type_synonym svg_element = "string \<rightharpoonup> string"

definition setAttribute :: "svg_element \<Rightarrow> string \<Rightarrow> string \<Rightarrow> svg_element" where
  "setAttribute el name v = el(name \<mapsto> v)"

record path_object =
  svgPathDark :: svg_element
  svgPath :: svg_element
  svgPathLight :: svg_element

text \<open>The constructor \<^verbatim>\<open>Blockly.geras.PathObject\<close>: the three paths as created.\<close>

definition PathObject :: path_object where
  "PathObject =
     \<lparr>svgPathDark =
        [''class'' \<mapsto> ''blocklyPathDark'', ''transform'' \<mapsto> ''translate(1,1)''],
      svgPath = [''class'' \<mapsto> ''blocklyPath''],
      svgPathLight = [''class'' \<mapsto> ''blocklyPathLight'']\<rparr>"

definition setPaths :: "string \<Rightarrow> string \<Rightarrow> path_object \<Rightarrow> path_object" where
  "setPaths mainPath highlightPath po =
     po\<lparr>svgPath := setAttribute (svgPath po) ''d'' mainPath,
        svgPathDark := setAttribute (svgPathDark po) ''d'' mainPath,
        svgPathLight := setAttribute (svgPathLight po) ''d'' highlightPath\<rparr>"

definition flipRTL :: "path_object \<Rightarrow> path_object" where
  "flipRTL po =
     po\<lparr>svgPath := setAttribute (svgPath po) ''transform'' ''scale(-1 1)'',
        svgPathLight := setAttribute (svgPathLight po) ''transform'' ''scale(-1 1)'',
        svgPathDark :=
          setAttribute (svgPathDark po) ''transform'' ''translate(1,1) scale(-1 1)''\<rparr>"

text \<open>The transform strings of the three paths: dark, primary, light.\<close>

definition transforms :: "path_object \<Rightarrow> string option \<times> string option \<times> string option" where
  "transforms po =
     (svgPathDark po ''transform'', svgPath po ''transform'', svgPathLight po ''transform'')"

text \<open>The dark path's transform starts with the (1,1) translation.\<close>

definition carries_translation :: "path_object \<Rightarrow> bool" where
  "carries_translation po =
     (case svgPathDark po ''transform'' of
        None \<Rightarrow> False
      | Some s \<Rightarrow> prefix ''translate(1,1)'' s)"

subsection \<open>Blocks, rendered connections and the connection database\<close>

text \<open>
  The connection types \<^verbatim>\<open>Blockly.INPUT_VALUE\<close>, \<^verbatim>\<open>Blockly.OUTPUT_VALUE\<close>,
  \<^verbatim>\<open>Blockly.NEXT_STATEMENT\<close> and \<^verbatim>\<open>Blockly.PREVIOUS_STATEMENT\<close> (constants that
  are not in the sources).
\<close>

datatype connection_type = INPUT_VALUE | OUTPUT_VALUE | NEXT_STATEMENT | PREVIOUS_STATEMENT

text \<open>
  What the connection code reads of a block: its identity, the \<^verbatim>\<open>rendered\<close>
  flag, and the SVG root (\<^term>\<open>None\<close> when \<^verbatim>\<open>getSvgRoot()\<close> returns nothing)
  with the relative coordinates \<^verbatim>\<open>getRelativeXY\<close> reads from it.
\<close>

record block =
  block_id :: nat
  rendered :: bool
  svgRoot :: "(real \<times> real) option"

text \<open>
  A rendered connection: \<open>conn_x\<close>, \<open>conn_y\<close>, \<open>inDB\<close> and \<open>hidden\<close> are the
  fields \<^verbatim>\<open>x_\<close>, \<^verbatim>\<open>y_\<close>, \<^verbatim>\<open>inDB_\<close> and \<^verbatim>\<open>hidden_\<close>; \<open>conn_id\<close> is the identity
  of the object.
\<close>

record connection =
  conn_id :: nat
  conn_type :: connection_type
  sourceBlock :: block
  conn_x :: real
  conn_y :: real
  inDB :: bool
  hidden :: bool

text \<open>
  The constructor. The workspace holds a database for each connection type
  (\<^verbatim>\<open>db_\<close> is declared non-null), so \<^verbatim>\<open>hidden_ = !this.db_\<close> is false. The
  coordinates are those the superclass constructor leaves.
\<close>

definition RenderedConnection ::
  "nat \<Rightarrow> block \<Rightarrow> connection_type \<Rightarrow> real \<Rightarrow> real \<Rightarrow> connection" where
  "RenderedConnection i source t x0 y0 =
     \<lparr>conn_id = i, conn_type = t, sourceBlock = source, conn_x = x0, conn_y = y0,
      inDB = False, hidden = False\<rparr>"

text \<open>
  Modelled from the spec: \<^verbatim>\<open>Blockly.ConnectionDB\<close> is not in the sources. The
  spatial index of one connection type supports insert and remove and is
  sorted by the y coordinate; the connection's membership flag says whether
  it is in the index. An entry is the connection's identity with the
  coordinates it was filed under. The index is keyed by coordinate: insert
  files the connection under its current coordinates, and remove looks it up
  under its current coordinates, so an entry filed under other coordinates
  is not found and stays.
\<close>

type_synonym connectionDB = "(nat \<times> real \<times> real) list"

definition addConnection :: "connectionDB \<Rightarrow> connection \<Rightarrow> connection \<times> connectionDB" where
  "addConnection db conn =
     (conn\<lparr>inDB := True\<rparr>,
      insort_key (\<lambda>e. snd (snd e)) (conn_id conn, conn_x conn, conn_y conn) db)"

definition removeConnection :: "connectionDB \<Rightarrow> connection \<Rightarrow> connection \<times> connectionDB" where
  "removeConnection db conn =
     (conn\<lparr>inDB := False\<rparr>,
      filter (\<lambda>e. e \<noteq> (conn_id conn, conn_x conn, conn_y conn)) db)"

definition in_database :: "connection \<Rightarrow> connectionDB \<Rightarrow> bool" where
  "in_database conn db = (conn_id conn \<in> fst ` set db)"

text \<open>No entry of the connection is filed under other coordinates than its own.\<close>

definition no_stale_entry :: "connection \<Rightarrow> connectionDB \<Rightarrow> bool" where
  "no_stale_entry conn db =
     (filter (\<lambda>e. fst e = conn_id conn \<and> snd e \<noteq> (conn_x conn, conn_y conn)) db = [])"

subsection \<open>\<^verbatim>\<open>distanceFrom\<close> and \<^verbatim>\<open>isConnectionAllowed\<close>\<close>

definition distanceFrom :: "connection \<Rightarrow> connection \<Rightarrow> real" where
  "distanceFrom this otherConnection =
    (let xDiff = conn_x this - conn_x otherConnection;
         yDiff = conn_y this - conn_y otherConnection
     in sqrt (xDiff * xDiff + yDiff * yDiff))"

text \<open>
  The superclass's \<^verbatim>\<open>isConnectionAllowed\<close>, the type-compatibility check, is
  an external collaborator: the parameter \<open>super\<close>. \<open>maxRadius\<close> is optional;
  a comparison with \<^verbatim>\<open>undefined\<close> is false.
\<close>

definition isConnectionAllowed ::
  "(connection \<Rightarrow> connection \<Rightarrow> bool) \<Rightarrow> connection \<Rightarrow> connection \<Rightarrow> real option \<Rightarrow> bool" where
  "isConnectionAllowed super this candidate maxRadius =
    (if (case maxRadius of None \<Rightarrow> False | Some r \<Rightarrow> distanceFrom this candidate > r)
     then False
     else super this candidate)"

subsection \<open>\<^verbatim>\<open>moveTo\<close> and \<^verbatim>\<open>setHidden\<close>\<close>

text \<open>The state is the connection with the database \<^verbatim>\<open>db_\<close> of its type.\<close>

definition moveTo :: "real \<Rightarrow> real \<Rightarrow> connection \<times> connectionDB \<Rightarrow> connection \<times> connectionDB" where
  "moveTo x y s =
    (case s of (this, db) \<Rightarrow>
      (case (if inDB this then removeConnection db this else (this, db)) of
        (this1, db1) \<Rightarrow>
          (let this2 = this1\<lparr>conn_x := x, conn_y := y\<rparr>
           in if \<not> hidden this2 then addConnection db1 this2 else (this2, db1))))"

definition setHidden :: "bool \<Rightarrow> connection \<times> connectionDB \<Rightarrow> connection \<times> connectionDB" where
  "setHidden h s =
    (case s of (this, db) \<Rightarrow>
      (let this1 = this\<lparr>hidden := h\<rparr>
       in if h \<and> inDB this1 then removeConnection db this1
          else if \<not> h \<and> \<not> inDB this1 then addConnection db this1
          else (this1, db)))"

datatype call = MoveTo real real | SetHidden bool

fun do_call :: "call \<Rightarrow> connection \<times> connectionDB \<Rightarrow> connection \<times> connectionDB" where
  "do_call (MoveTo x y) s = moveTo x y s"
| "do_call (SetHidden h) s = setHidden h s"

fun do_calls :: "call list \<Rightarrow> connection \<times> connectionDB \<Rightarrow> connection \<times> connectionDB" where
  "do_calls [] s = s"
| "do_calls (k # ks) s = do_calls ks (do_call k s)"

subsection \<open>\<^verbatim>\<open>connect_\<close>, \<^verbatim>\<open>disconnectInternal_\<close>, \<^verbatim>\<open>tighten_\<close> and \<^verbatim>\<open>respawnShadow_\<close>\<close>

text \<open>
  The calls a method makes on blocks and on its superclass, in order.
  \<open>Render b arg\<close> is \<^verbatim>\<open>render(arg)\<close> on the block \<open>b\<close>, with \<^term>\<open>None\<close> for
  no argument. The superclass methods and the block methods are external:
  a call is recorded, and the \<^verbatim>\<open>rendered\<close> flag of a block is the one the
  method reads.
\<close>

datatype event =
    SuperConnect nat nat
  | SuperDisconnectInternal nat nat
  | SuperRespawnShadow nat
  | UpdateDisabled nat
  | InitSvg nat
  | Render nat "bool option"

definition connect :: "connection \<Rightarrow> connection \<Rightarrow> event list" where
  "connect this childConnection =
    (let parentConnection = this;
         parentBlock = sourceBlock parentConnection;
         childBlock = sourceBlock childConnection
     in [SuperConnect (conn_id this) (conn_id childConnection)]
        @ (if rendered parentBlock then [UpdateDisabled (block_id parentBlock)] else [])
        @ (if rendered childBlock then [UpdateDisabled (block_id childBlock)] else [])
        @ (if rendered parentBlock \<and> rendered childBlock then
             (if conn_type parentConnection = NEXT_STATEMENT
                 \<or> conn_type parentConnection = PREVIOUS_STATEMENT
              then [Render (block_id childBlock) None]
              else [Render (block_id parentBlock) None])
           else []))"

definition disconnectInternal :: "block \<Rightarrow> block \<Rightarrow> event list" where
  "disconnectInternal parentBlock childBlock =
     [SuperDisconnectInternal (block_id parentBlock) (block_id childBlock)]
     @ (if rendered parentBlock then [Render (block_id parentBlock) None] else [])
     @ (if rendered childBlock
        then [UpdateDisabled (block_id childBlock), Render (block_id childBlock) None]
        else [])"

definition is_render :: "event \<Rightarrow> bool" where
  "is_render e = (case e of Render b arg \<Rightarrow> True | _ \<Rightarrow> False)"

definition is_updateDisabled :: "event \<Rightarrow> bool" where
  "is_updateDisabled e = (case e of UpdateDisabled b \<Rightarrow> True | _ \<Rightarrow> False)"

text \<open>
  \<^verbatim>\<open>tighten_\<close>: the target connection is the second argument (\<^term>\<open>None\<close>
  when unconnected: reading its coordinates throws a TypeError). On success
  the target block's root is translated and \<^verbatim>\<open>moveConnections_\<close> is called.
\<close>

datatype tighten_effect =
    NoMove
  | Moved "real \<times> real" "real \<times> real"

definition tighten :: "connection \<Rightarrow> connection option \<Rightarrow> error + tighten_effect" where
  "tighten this targetConnection =
    (case targetConnection of
       None \<Rightarrow> Inl TypeError
     | Some t \<Rightarrow>
        (let dx = conn_x t - conn_x this;
             dy = conn_y t - conn_y this
         in if dx \<noteq> 0 \<or> dy \<noteq> 0 then
              (let blk = sourceBlock t
               in case svgRoot blk of
                    None \<Rightarrow> Inl BlockNotRendered
                  | Some xy \<Rightarrow> Inr (Moved (fst xy - dx, snd xy - dy) (- dx, - dy)))
            else Inr NoMove))"

text \<open>
  \<^verbatim>\<open>respawnShadow_\<close>: \<open>hasWorkspace\<close>, \<open>shadow\<close> and \<open>recordUndo\<close> are the three
  conjuncts of the guard; \<open>respawned\<close> is what \<^verbatim>\<open>this.targetBlock()\<close> returns
  after the superclass has respawned the shadow.
\<close>

definition respawnShadow ::
  "connection \<Rightarrow> bool \<Rightarrow> bool \<Rightarrow> bool \<Rightarrow> block option \<Rightarrow> error + event list" where
  "respawnShadow this hasWorkspace shadow recordUndo respawned =
    (let parentBlock = sourceBlock this
     in if hasWorkspace \<and> shadow \<and> recordUndo then
          (case respawned of
             None \<Rightarrow> Inl ShadowNotRespawned
           | Some blockShadow \<Rightarrow>
               Inr ([SuperRespawnShadow (conn_id this),
                     InitSvg (block_id blockShadow),
                     Render (block_id blockShadow) (Some False)]
                    @ (if rendered parentBlock then [Render (block_id parentBlock) None]
                       else [])))
        else Inr [])"

subsection \<open>The theme manager's subscribed workspaces\<close>

record theme_manager =
  subscribedWorkspaces :: "nat list"

definition ThemeManager :: theme_manager where
  "ThemeManager = \<lparr>subscribedWorkspaces = []\<rparr>"

definition subscribeWorkspace :: "nat \<Rightarrow> theme_manager \<Rightarrow> theme_manager" where
  "subscribeWorkspace workspace tm =
     tm\<lparr>subscribedWorkspaces := subscribedWorkspaces tm @ [workspace]\<rparr>"

text \<open>\<^verbatim>\<open>Array.prototype.indexOf\<close>: the first position of the value, or -1.\<close>

fun indexOf :: "nat list \<Rightarrow> nat \<Rightarrow> int" where
  "indexOf [] w = - 1"
| "indexOf (v # vs) w =
     (if v = w then 0 else (let i = indexOf vs w in if i < 0 then - 1 else i + 1))"

definition unsubscribeWorkspace :: "nat \<Rightarrow> theme_manager \<Rightarrow> error + theme_manager" where
  "unsubscribeWorkspace workspace tm =
    (let index = indexOf (subscribedWorkspaces tm) workspace
     in if index < 0 then Inl WorkspaceNotSubscribed
        else Inr (tm\<lparr>subscribedWorkspaces :=
               take (nat index) (subscribedWorkspaces tm)
               @ drop (nat index + 1) (subscribedWorkspaces tm)\<rparr>))"

subsection \<open>Predicates used in the statements\<close>

text \<open>
  The membership flag agrees with the database, and no entry of the
  connection is stale.
\<close>

definition consistent :: "connection \<times> connectionDB \<Rightarrow> bool" where
  "consistent s = (case s of (conn, db) \<Rightarrow>
     inDB conn = in_database conn db \<and> no_stale_entry conn db)"

text \<open>The connection is in the database exactly when it is not hidden.\<close>

definition settled :: "connection \<times> connectionDB \<Rightarrow> bool" where
  "settled s = (case s of (conn, db) \<Rightarrow> in_database conn db = (\<not> hidden conn))"

definition step_ok ::
  "connection \<Rightarrow> connection \<times> connectionDB \<Rightarrow> bool" where
  "step_ok this s = (consistent s \<and> settled s \<and> conn_id (fst s) = conn_id this)"

text \<open>
  How \<open>m\<close> is distributed over the leading spacer \<open>fi\<close> and the trailing
  spacer \<open>li\<close> of a row \<open>r\<close>, by the row's alignment.
\<close>

definition padded_as ::
  "row \<Rightarrow> real \<Rightarrow> nat \<Rightarrow> nat \<Rightarrow> row \<Rightarrow> bool" where
  "padded_as r m fi li r1 =
    (row_width r1 = row_width r + m
     \<and> length (elements r1) = length (elements r)
     \<and> (align r = Some ALIGN_LEFT \<or> align r = None \<longrightarrow>
          width_at r1 li = width_at r li + m
          \<and> (\<forall>j. j \<noteq> li \<longrightarrow> elements r1 ! j = elements r ! j))
     \<and> (align r = Some ALIGN_RIGHT \<longrightarrow>
          width_at r1 fi = width_at r fi + m
          \<and> (\<forall>j. j \<noteq> fi \<longrightarrow> elements r1 ! j = elements r ! j))
     \<and> (align r = Some ALIGN_CENTRE \<longrightarrow>
          \<bar>(width_at r1 fi - width_at r fi) - (width_at r1 li - width_at r li)\<bar> \<le> 1
          \<and> (fi \<noteq> li \<longrightarrow> width_at r1 fi = width_at r fi + m / 2
                          \<and> width_at r1 li = width_at r li + m / 2)
          \<and> (fi = li \<longrightarrow> width_at r1 fi = width_at r fi + m)
          \<and> (\<forall>j. j \<noteq> fi \<longrightarrow> j \<noteq> li \<longrightarrow> elements r1 ! j = elements r ! j)))"

text \<open>
  The height the body of the \<^verbatim>\<open>finalize_\<close> loop leaves on the row it visits,
  and the render info after the visit.
\<close>

definition visited_height :: "constants \<Rightarrow> nat \<Rightarrow> real \<Rightarrow> render_info \<Rightarrow> real" where
  "visited_height c i y info =
     row_height (rows info ! i)
     + (if i = bottomRow info
           \<and> y + row_height (rows info ! i) - ascenderHeight (rows info ! topRow info)
               < MIN_BLOCK_HEIGHT c
        then MIN_BLOCK_HEIGHT c
             - (y + row_height (rows info ! i) - ascenderHeight (rows info ! topRow info))
        else 0)"

definition visited :: "constants \<Rightarrow> nat \<Rightarrow> real \<Rightarrow> render_info \<Rightarrow> render_info" where
  "visited c i y info =
     info\<lparr>rows := (rows info)[i := (rows info ! i)
        \<lparr>yPos := y, xPos := startX info, row_height := visited_height c i y info\<rparr>]\<rparr>"

text \<open>
  In \<^verbatim>\<open>getInRowSpacing_\<close>, the pair reaches the corner rules: no rule for a
  non-input followed by an input, for an icon or for an inline input
  returns before them.
\<close>

definition corner_rules_reached :: "measurable \<Rightarrow> measurable \<Rightarrow> bool" where
  "corner_rules_reached p n =
     ((isInput p \<and> isInput n)
      \<or> (\<not> isInput n \<and> \<not> isIcon p \<and> \<not> isInlineInput p))"

subsection \<open>Example data\<close>

text \<open>
  Concrete constants and measurables on which the theorems below are
  instantiated.
\<close>

definition example_constants :: constants where
  "example_constants =
     \<lparr>NO_PADDING = 0, SMALL_PADDING = 3, MEDIUM_PADDING = 5, MEDIUM_LARGE_PADDING = 8,
      LARGE_PADDING = 10, STATEMENT_INPUT_PADDING_LEFT = 20, MIN_BLOCK_WIDTH = 12,
      MIN_BLOCK_HEIGHT = 24, CORNER_RADIUS = 8, TAB_WIDTH = 8, NOTCH_OFFSET_LEFT = 15\<rparr>"

definition editable_field :: measurable where
  "editable_field = \<lparr>mtype = {FIELD}, width = 40, isEditable = Some True, notchOffset = 15\<rparr>"

definition label_field :: measurable where
  "label_field = \<lparr>mtype = {FIELD}, width = 30, isEditable = Some False, notchOffset = 15\<rparr>"

definition inline_input :: measurable where
  "inline_input =
     \<lparr>mtype = {CONNECTION, INPUT, INLINE_INPUT}, width = 22, isEditable = None,
      notchOffset = 15\<rparr>"

definition round_corner :: measurable where
  "round_corner =
     \<lparr>mtype = {LEFT_ROUNDED_CORNER}, width = 8, isEditable = None, notchOffset = 15\<rparr>"

definition previous_connection :: measurable where
  "previous_connection =
     \<lparr>mtype = {CONNECTION, PREVIOUS_CONNECTION}, width = 15, isEditable = None,
      notchOffset = 15\<rparr>"

definition statement_input :: measurable where
  "statement_input =
     \<lparr>mtype = {CONNECTION, INPUT, STATEMENT_INPUT}, width = 40, isEditable = None,
      notchOffset = 15\<rparr>"

definition external_input :: measurable where
  "external_input =
     \<lparr>mtype = {CONNECTION, INPUT, EXTERNAL_VALUE_INPUT}, width = 10, isEditable = None,
      notchOffset = 15\<rparr>"

definition plain_input :: measurable where
  "plain_input =
     \<lparr>mtype = {CONNECTION, INPUT}, width = 10, isEditable = None, notchOffset = 15\<rparr>"

definition icon_elem :: measurable where
  "icon_elem = \<lparr>mtype = {ICON}, width = 17, isEditable = None, notchOffset = 15\<rparr>"

definition hat_elem :: measurable where
  "hat_elem = \<lparr>mtype = {HAT}, width = 100, isEditable = None, notchOffset = 15\<rparr>"

definition square_corner :: measurable where
  "square_corner =
     \<lparr>mtype = {LEFT_SQUARE_CORNER}, width = 0, isEditable = None, notchOffset = 15\<rparr>"

definition jagged_edge :: measurable where
  "jagged_edge = \<lparr>mtype = {JAGGED_EDGE}, width = 6, isEditable = None, notchOffset = 15\<rparr>"

definition example_parent :: block where
  "example_parent = \<lparr>block_id = 1, rendered = True, svgRoot = Some (0, 0)\<rparr>"

definition example_child :: block where
  "example_child = \<lparr>block_id = 2, rendered = True, svgRoot = Some (10, 20)\<rparr>"

definition unrendered_child :: block where
  "unrendered_child = \<lparr>block_id = 3, rendered = False, svgRoot = None\<rparr>"

definition origin_connection :: connection where
  "origin_connection = RenderedConnection 10 example_parent NEXT_STATEMENT 0 0"

definition far_connection :: connection where
  "far_connection = RenderedConnection 11 example_child PREVIOUS_STATEMENT 3 4"

definition unrendered_here :: connection where
  "unrendered_here = RenderedConnection 12 unrendered_child PREVIOUS_STATEMENT 0 0"

definition unrendered_away :: connection where
  "unrendered_away = RenderedConnection 13 unrendered_child PREVIOUS_STATEMENT 3 4"

definition always_compatible :: "connection \<Rightarrow> connection \<Rightarrow> bool" where
  "always_compatible a b = True"

definition example_input_row :: row where
  "example_input_row =
     \<lparr>elements = [Some label_field], row_height = 20, row_width = 30,
      widthWithConnectedBlocks = 30, yPos = 0, xPos = 0,
      hasExternalInput = False, hasStatement = False, hasDummyInput = True,
      align = Some ALIGN_LEFT, startsWithElemSpacer = True, endsWithElemSpacer = True,
      ascenderHeight = 0, descenderHeight = 0, capline = 0, baseline = 0\<rparr>"

definition example_external_row :: row where
  "example_external_row =
     example_input_row\<lparr>elements := [Some editable_field], hasExternalInput := True,
       hasDummyInput := False\<rparr>"

definition example_info :: render_info where
  "example_info =
     \<lparr>rows = [example_input_row, example_external_row], topRow = 0, bottomRow = 1,
      startX = 0, height = 0, widthWithChildren = 0, startY = 0\<rparr>"

definition example_spacer :: measurable where
  "example_spacer = InRowSpacer example_constants 10"

definition example_padded_row :: "alignment \<Rightarrow> row" where
  "example_padded_row a =
     \<lparr>elements = [Some example_spacer, Some label_field, Some example_spacer],
      row_height = 20, row_width = 50,
      widthWithConnectedBlocks = 50, yPos = 0, xPos = 0,
      hasExternalInput = False, hasStatement = False, hasDummyInput = True,
      align = Some a, startsWithElemSpacer = True, endsWithElemSpacer = True,
      ascenderHeight = 0, descenderHeight = 0, capline = 0, baseline = 0\<rparr>"

definition example_row :: "real \<Rightarrow> row" where
  "example_row h =
     \<lparr>elements = [], row_height = h, row_width = 50,
      widthWithConnectedBlocks = 50, yPos = 0, xPos = 0,
      hasExternalInput = False, hasStatement = False, hasDummyInput = False,
      align = None, startsWithElemSpacer = False, endsWithElemSpacer = False,
      ascenderHeight = 0, descenderHeight = 2, capline = 0, baseline = 0\<rparr>"

definition example_block :: render_info where
  "example_block =
     \<lparr>rows = [example_row 5, example_row 10, example_row 5], topRow = 0, bottomRow = 2,
      startX = 0, height = 0, widthWithChildren = 0, startY = 0\<rparr>"

section \<open>Properties\<close>

lemmas type_tests = isField_def isHat_def isIcon_def isSpacer_def isInput_def isInlineInput_def
  isStatementInput_def isExternalInput_def isPreviousConnection_def isNextConnection_def
  isPreviousOrNextConnection_def isLeftSquareCorner_def isLeftRoundedCorner_def isJaggedEdge_def

lemmas example_elems = editable_field_def label_field_def inline_input_def round_corner_def
  previous_connection_def statement_input_def external_input_def plain_input_def
  icon_elem_def hat_elem_def square_corner_def jagged_edge_def

subsection \<open>The in-row spacing rule table\<close>

text \<open>
  One lemma for each returning branch of \<^verbatim>\<open>getInRowSpacing_\<close>, under the
  condition on which the branch is reached: the rules at the start of a row,
  at the end of a row after a non-input and after an input, between a
  non-input and an input, and the remaining pairs.
\<close>

lemma row_start_rule1:
  "isField n \<and> isEditable n = Some True
      \<longrightarrow> getInRowSpacing c None (Some n) = MEDIUM_PADDING c"
  by (auto simp add: getInRowSpacing_def nonnull_and_def truthy_def
        corner_rules_reached_def)

lemma row_start_rule2:
  "\<not> (isField n \<and> isEditable n = Some True) \<and> isInlineInput n
      \<longrightarrow> getInRowSpacing c None (Some n) = MEDIUM_LARGE_PADDING c"
  by (auto simp add: getInRowSpacing_def nonnull_and_def truthy_def
        corner_rules_reached_def)

lemma row_start_rule3:
  "\<not> (isField n \<and> isEditable n = Some True) \<and> \<not> isInlineInput n \<and> isStatementInput n
      \<longrightarrow> getInRowSpacing c None (Some n) = STATEMENT_INPUT_PADDING_LEFT c"
  by (auto simp add: getInRowSpacing_def nonnull_and_def truthy_def
        corner_rules_reached_def)

lemma row_start_rule4:
  "\<not> (isField n \<and> isEditable n = Some True) \<and> \<not> isInlineInput n \<and> \<not> isStatementInput n
      \<longrightarrow> getInRowSpacing c None (Some n) = LARGE_PADDING c"
  by (auto simp add: getInRowSpacing_def nonnull_and_def truthy_def
        corner_rules_reached_def)

lemma row_start_rule5:
  "getInRowSpacing c None None = LARGE_PADDING c"
  by (auto simp add: getInRowSpacing_def nonnull_and_def truthy_def
        corner_rules_reached_def)

lemma row_end_rule1:
  "\<not> isInput p \<and> isField p \<and> isEditable p = Some True
      \<longrightarrow> getInRowSpacing c (Some p) None = MEDIUM_PADDING c"
  by (auto simp add: getInRowSpacing_def nonnull_and_def truthy_def
        corner_rules_reached_def)

lemma row_end_rule2:
  "\<not> isInput p \<and> \<not> (isField p \<and> isEditable p = Some True) \<and> isIcon p
      \<longrightarrow> getInRowSpacing c (Some p) None = LARGE_PADDING c * 2 + 1"
  by (auto simp add: getInRowSpacing_def nonnull_and_def truthy_def
        corner_rules_reached_def)

lemma row_end_rule3:
  "\<not> isInput p \<and> \<not> (isField p \<and> isEditable p = Some True) \<and> \<not> isIcon p \<and> isHat p
      \<longrightarrow> getInRowSpacing c (Some p) None = NO_PADDING c"
  by (auto simp add: getInRowSpacing_def nonnull_and_def truthy_def
        corner_rules_reached_def)

lemma row_end_rule4:
  "\<not> isInput p \<and> \<not> (isField p \<and> isEditable p = Some True) \<and> \<not> isIcon p \<and> \<not> isHat p \<and> isPreviousOrNextConnection p
      \<longrightarrow> getInRowSpacing c (Some p) None = LARGE_PADDING c"
  by (auto simp add: getInRowSpacing_def nonnull_and_def truthy_def
        corner_rules_reached_def)

lemma row_end_rule5:
  "\<not> isInput p \<and> \<not> (isField p \<and> isEditable p = Some True) \<and> \<not> isIcon p \<and> \<not> isHat p \<and> \<not> isPreviousOrNextConnection p \<and> isLeftRoundedCorner p
      \<longrightarrow> getInRowSpacing c (Some p) None = MIN_BLOCK_WIDTH c"
  by (auto simp add: getInRowSpacing_def nonnull_and_def truthy_def
        corner_rules_reached_def)

lemma row_end_rule6:
  "\<not> isInput p \<and> \<not> (isField p \<and> isEditable p = Some True) \<and> \<not> isIcon p \<and> \<not> isHat p \<and> \<not> isPreviousOrNextConnection p \<and> \<not> isLeftRoundedCorner p \<and> isJaggedEdge p
      \<longrightarrow> getInRowSpacing c (Some p) None = NO_PADDING c"
  by (auto simp add: getInRowSpacing_def nonnull_and_def truthy_def
        corner_rules_reached_def)

lemma row_end_rule7:
  "\<not> isInput p \<and> \<not> (isField p \<and> isEditable p = Some True) \<and> \<not> isIcon p \<and> \<not> isHat p \<and> \<not> isPreviousOrNextConnection p \<and> \<not> isLeftRoundedCorner p \<and> \<not> isJaggedEdge p
      \<longrightarrow> getInRowSpacing c (Some p) None = LARGE_PADDING c"
  by (auto simp add: getInRowSpacing_def nonnull_and_def truthy_def
        corner_rules_reached_def)

lemma input_end_rule1:
  "isInput p \<and> isExternalInput p
      \<longrightarrow> getInRowSpacing c (Some p) None = NO_PADDING c"
  by (auto simp add: getInRowSpacing_def nonnull_and_def truthy_def
        corner_rules_reached_def)

lemma input_end_rule2:
  "isInput p \<and> \<not> isExternalInput p \<and> isInlineInput p
      \<longrightarrow> getInRowSpacing c (Some p) None = LARGE_PADDING c"
  by (auto simp add: getInRowSpacing_def nonnull_and_def truthy_def
        corner_rules_reached_def)

lemma input_end_rule3:
  "isInput p \<and> \<not> isExternalInput p \<and> \<not> isInlineInput p \<and> isStatementInput p
      \<longrightarrow> getInRowSpacing c (Some p) None = NO_PADDING c"
  by (auto simp add: getInRowSpacing_def nonnull_and_def truthy_def
        corner_rules_reached_def)

lemma before_input_rule1:
  "\<not> isInput p \<and> isInput n \<and> isEditable p = Some True \<and> isInlineInput n
      \<longrightarrow> getInRowSpacing c (Some p) (Some n) = SMALL_PADDING c"
  by (auto simp add: getInRowSpacing_def nonnull_and_def truthy_def
        corner_rules_reached_def)

lemma before_input_rule2:
  "\<not> isInput p \<and> isInput n \<and> isEditable p = Some True \<and> \<not> isInlineInput n \<and> isExternalInput n
      \<longrightarrow> getInRowSpacing c (Some p) (Some n) = SMALL_PADDING c"
  by (auto simp add: getInRowSpacing_def nonnull_and_def truthy_def
        corner_rules_reached_def)

lemma before_input_rule3:
  "\<not> isInput p \<and> isInput n \<and> isEditable p = Some True \<and> \<not> isInlineInput n \<and> \<not> isExternalInput n
      \<longrightarrow> getInRowSpacing c (Some p) (Some n) = LARGE_PADDING c - 1"
  by (auto simp add: getInRowSpacing_def nonnull_and_def truthy_def
        corner_rules_reached_def)

lemma before_input_rule4:
  "\<not> isInput p \<and> isInput n \<and> isEditable p \<noteq> Some True \<and> isInlineInput n
      \<longrightarrow> getInRowSpacing c (Some p) (Some n) = MEDIUM_LARGE_PADDING c"
  by (auto simp add: getInRowSpacing_def nonnull_and_def truthy_def
        corner_rules_reached_def)

lemma before_input_rule5:
  "\<not> isInput p \<and> isInput n \<and> isEditable p \<noteq> Some True \<and> \<not> isInlineInput n \<and> isExternalInput n
      \<longrightarrow> getInRowSpacing c (Some p) (Some n) = MEDIUM_LARGE_PADDING c"
  by (auto simp add: getInRowSpacing_def nonnull_and_def truthy_def
        corner_rules_reached_def)

lemma before_input_rule6:
  "\<not> isInput p \<and> isInput n \<and> isEditable p \<noteq> Some True \<and> \<not> isInlineInput n \<and> \<not> isExternalInput n \<and> isStatementInput n
      \<longrightarrow> getInRowSpacing c (Some p) (Some n) = LARGE_PADDING c"
  by (auto simp add: getInRowSpacing_def nonnull_and_def truthy_def
        corner_rules_reached_def)

lemma before_input_rule7:
  "\<not> isInput p \<and> isInput n \<and> isEditable p \<noteq> Some True \<and> \<not> isInlineInput n \<and> \<not> isExternalInput n \<and> \<not> isStatementInput n
      \<longrightarrow> getInRowSpacing c (Some p) (Some n) = LARGE_PADDING c - 1"
  by (auto simp add: getInRowSpacing_def nonnull_and_def truthy_def
        corner_rules_reached_def)

lemma pair_rule1:
  "isIcon p \<and> \<not> isInput n
      \<longrightarrow> getInRowSpacing c (Some p) (Some n) = LARGE_PADDING c"
  by (auto simp add: getInRowSpacing_def nonnull_and_def truthy_def
        corner_rules_reached_def)

lemma pair_rule2:
  "isInlineInput p \<and> \<not> isIcon p \<and> \<not> isInput n \<and> isEditable n = Some True
      \<longrightarrow> getInRowSpacing c (Some p) (Some n) = MEDIUM_PADDING c"
  by (auto simp add: getInRowSpacing_def nonnull_and_def truthy_def
        corner_rules_reached_def)

lemma pair_rule3:
  "isInlineInput p \<and> \<not> isIcon p \<and> \<not> isInput n \<and> isEditable n \<noteq> Some True
      \<longrightarrow> getInRowSpacing c (Some p) (Some n) = LARGE_PADDING c"
  by (auto simp add: getInRowSpacing_def nonnull_and_def truthy_def
        corner_rules_reached_def)

lemma pair_rule4:
  "corner_rules_reached p n \<and> isLeftSquareCorner p \<and> isHat n
      \<longrightarrow> getInRowSpacing c (Some p) (Some n) = NO_PADDING c"
  by (auto simp add: getInRowSpacing_def nonnull_and_def truthy_def
        corner_rules_reached_def)

lemma pair_rule5:
  "corner_rules_reached p n \<and> isLeftSquareCorner p \<and> \<not> isHat n \<and> (isPreviousConnection n \<or> isNextConnection n)
      \<longrightarrow> getInRowSpacing c (Some p) (Some n) = notchOffset n"
  by (auto simp add: getInRowSpacing_def nonnull_and_def truthy_def
        corner_rules_reached_def)

lemma pair_rule6:
  "corner_rules_reached p n \<and> \<not> (isLeftSquareCorner p \<and> (isHat n \<or> isPreviousConnection n \<or> isNextConnection n)) \<and> isLeftRoundedCorner p
      \<longrightarrow> getInRowSpacing c (Some p) (Some n) = notchOffset n - CORNER_RADIUS c"
  by (auto simp add: getInRowSpacing_def nonnull_and_def truthy_def
        corner_rules_reached_def)

lemma pair_rule7:
  "corner_rules_reached p n \<and> \<not> (isLeftSquareCorner p \<and> (isHat n \<or> isPreviousConnection n \<or> isNextConnection n)) \<and> \<not> isLeftRoundedCorner p \<and> (\<not> isInput p \<and> \<not> isInput n \<and> isEditable p = isEditable n)
      \<longrightarrow> getInRowSpacing c (Some p) (Some n) = LARGE_PADDING c"
  by (auto simp add: getInRowSpacing_def nonnull_and_def truthy_def
        corner_rules_reached_def)

lemma pair_rule8:
  "corner_rules_reached p n \<and> \<not> (isLeftSquareCorner p \<and> (isHat n \<or> isPreviousConnection n \<or> isNextConnection n)) \<and> \<not> isLeftRoundedCorner p \<and> \<not> (\<not> isInput p \<and> \<not> isInput n \<and> isEditable p = isEditable n) \<and> isJaggedEdge n
      \<longrightarrow> getInRowSpacing c (Some p) (Some n) = LARGE_PADDING c"
  by (auto simp add: getInRowSpacing_def nonnull_and_def truthy_def
        corner_rules_reached_def)

lemma pair_rule9:
  "corner_rules_reached p n \<and> \<not> (isLeftSquareCorner p \<and> (isHat n \<or> isPreviousConnection n \<or> isNextConnection n)) \<and> \<not> isLeftRoundedCorner p \<and> \<not> (\<not> isInput p \<and> \<not> isInput n \<and> isEditable p = isEditable n) \<and> \<not> isJaggedEdge n
      \<longrightarrow> getInRowSpacing c (Some p) (Some n) = MEDIUM_PADDING c"
  by (auto simp add: getInRowSpacing_def nonnull_and_def truthy_def
        corner_rules_reached_def)

lemma fall_through_rule:
  "\<not> matches_enumerated_rule prv nxt
     \<longrightarrow> getInRowSpacing c prv nxt = MEDIUM_PADDING c"
  by (cases prv; cases nxt)
     (auto simp add: getInRowSpacing_def matches_enumerated_rule_def nonnull_and_def)

lemmas witness_simps = type_tests example_elems example_constants_def
  corner_rules_reached_def matches_enumerated_rule_def nonnull_and_def

text \<open>
  Claim C1. For every pair (\<open>prev\<close>, \<open>next\<close>), \<^verbatim>\<open>getInRowSpacing_\<close> returns the
  width of the enumerated rule table; each conjunct is one rule of the
  source, in its order, with the width it gives. At the start of a row
  (\<open>prev\<close> is null) an editable field gets \<open>MEDIUM_PADDING\<close>, an inline input
  \<open>MEDIUM_LARGE_PADDING\<close>, a statement input \<open>STATEMENT_INPUT_PADDING_LEFT\<close>
  and anything else \<open>LARGE_PADDING\<close>. At the end of a row (\<open>next\<close> is null)
  the width is fixed by the kind of \<open>prev\<close>. Between a non-input and an
  input it is fixed by the editability of \<open>prev\<close> and the kind of the input.
  For the other pairs the icon rule, the inline-input rule, the two
  square-corner rules, the rounded-corner rule (\<open>next.notchOffset\<close> minus
  \<open>CORNER_RADIUS\<close>), the same-editability rule and the jagged-edge rule apply
  in this order, and a pair that no enumerated rule matches gets
  \<open>MEDIUM_PADDING\<close>.
\<close>

theorem getInRowSpacing_rule_table:
  "(isField n \<and> isEditable n = Some True
      \<longrightarrow> getInRowSpacing c None (Some n) = MEDIUM_PADDING c)
   \<and> (\<not> (isField n \<and> isEditable n = Some True) \<and> isInlineInput n
      \<longrightarrow> getInRowSpacing c None (Some n) = MEDIUM_LARGE_PADDING c)
   \<and> (\<not> (isField n \<and> isEditable n = Some True) \<and> \<not> isInlineInput n \<and> isStatementInput n
      \<longrightarrow> getInRowSpacing c None (Some n) = STATEMENT_INPUT_PADDING_LEFT c)
   \<and> (\<not> (isField n \<and> isEditable n = Some True) \<and> \<not> isInlineInput n \<and> \<not> isStatementInput n
      \<longrightarrow> getInRowSpacing c None (Some n) = LARGE_PADDING c)
   \<and> getInRowSpacing c None None = LARGE_PADDING c
   \<and> (\<not> isInput p \<and> isField p \<and> isEditable p = Some True
      \<longrightarrow> getInRowSpacing c (Some p) None = MEDIUM_PADDING c)
   \<and> (\<not> isInput p \<and> \<not> (isField p \<and> isEditable p = Some True) \<and> isIcon p
      \<longrightarrow> getInRowSpacing c (Some p) None = LARGE_PADDING c * 2 + 1)
   \<and> (\<not> isInput p \<and> \<not> (isField p \<and> isEditable p = Some True) \<and> \<not> isIcon p \<and> isHat p
      \<longrightarrow> getInRowSpacing c (Some p) None = NO_PADDING c)
   \<and> (\<not> isInput p \<and> \<not> (isField p \<and> isEditable p = Some True) \<and> \<not> isIcon p \<and> \<not> isHat p \<and> isPreviousOrNextConnection p
      \<longrightarrow> getInRowSpacing c (Some p) None = LARGE_PADDING c)
   \<and> (\<not> isInput p \<and> \<not> (isField p \<and> isEditable p = Some True) \<and> \<not> isIcon p \<and> \<not> isHat p \<and> \<not> isPreviousOrNextConnection p \<and> isLeftRoundedCorner p
      \<longrightarrow> getInRowSpacing c (Some p) None = MIN_BLOCK_WIDTH c)
   \<and> (\<not> isInput p \<and> \<not> (isField p \<and> isEditable p = Some True) \<and> \<not> isIcon p \<and> \<not> isHat p \<and> \<not> isPreviousOrNextConnection p \<and> \<not> isLeftRoundedCorner p \<and> isJaggedEdge p
      \<longrightarrow> getInRowSpacing c (Some p) None = NO_PADDING c)
   \<and> (\<not> isInput p \<and> \<not> (isField p \<and> isEditable p = Some True) \<and> \<not> isIcon p \<and> \<not> isHat p \<and> \<not> isPreviousOrNextConnection p \<and> \<not> isLeftRoundedCorner p \<and> \<not> isJaggedEdge p
      \<longrightarrow> getInRowSpacing c (Some p) None = LARGE_PADDING c)
   \<and> (isInput p \<and> isExternalInput p
      \<longrightarrow> getInRowSpacing c (Some p) None = NO_PADDING c)
   \<and> (isInput p \<and> \<not> isExternalInput p \<and> isInlineInput p
      \<longrightarrow> getInRowSpacing c (Some p) None = LARGE_PADDING c)
   \<and> (isInput p \<and> \<not> isExternalInput p \<and> \<not> isInlineInput p \<and> isStatementInput p
      \<longrightarrow> getInRowSpacing c (Some p) None = NO_PADDING c)
   \<and> (\<not> isInput p \<and> isInput n \<and> isEditable p = Some True \<and> isInlineInput n
      \<longrightarrow> getInRowSpacing c (Some p) (Some n) = SMALL_PADDING c)
   \<and> (\<not> isInput p \<and> isInput n \<and> isEditable p = Some True \<and> \<not> isInlineInput n \<and> isExternalInput n
      \<longrightarrow> getInRowSpacing c (Some p) (Some n) = SMALL_PADDING c)
   \<and> (\<not> isInput p \<and> isInput n \<and> isEditable p = Some True \<and> \<not> isInlineInput n \<and> \<not> isExternalInput n
      \<longrightarrow> getInRowSpacing c (Some p) (Some n) = LARGE_PADDING c - 1)
   \<and> (\<not> isInput p \<and> isInput n \<and> isEditable p \<noteq> Some True \<and> isInlineInput n
      \<longrightarrow> getInRowSpacing c (Some p) (Some n) = MEDIUM_LARGE_PADDING c)
   \<and> (\<not> isInput p \<and> isInput n \<and> isEditable p \<noteq> Some True \<and> \<not> isInlineInput n \<and> isExternalInput n
      \<longrightarrow> getInRowSpacing c (Some p) (Some n) = MEDIUM_LARGE_PADDING c)
   \<and> (\<not> isInput p \<and> isInput n \<and> isEditable p \<noteq> Some True \<and> \<not> isInlineInput n \<and> \<not> isExternalInput n \<and> isStatementInput n
      \<longrightarrow> getInRowSpacing c (Some p) (Some n) = LARGE_PADDING c)
   \<and> (\<not> isInput p \<and> isInput n \<and> isEditable p \<noteq> Some True \<and> \<not> isInlineInput n \<and> \<not> isExternalInput n \<and> \<not> isStatementInput n
      \<longrightarrow> getInRowSpacing c (Some p) (Some n) = LARGE_PADDING c - 1)
   \<and> (isIcon p \<and> \<not> isInput n
      \<longrightarrow> getInRowSpacing c (Some p) (Some n) = LARGE_PADDING c)
   \<and> (isInlineInput p \<and> \<not> isIcon p \<and> \<not> isInput n \<and> isEditable n = Some True
      \<longrightarrow> getInRowSpacing c (Some p) (Some n) = MEDIUM_PADDING c)
   \<and> (isInlineInput p \<and> \<not> isIcon p \<and> \<not> isInput n \<and> isEditable n \<noteq> Some True
      \<longrightarrow> getInRowSpacing c (Some p) (Some n) = LARGE_PADDING c)
   \<and> (corner_rules_reached p n \<and> isLeftSquareCorner p \<and> isHat n
      \<longrightarrow> getInRowSpacing c (Some p) (Some n) = NO_PADDING c)
   \<and> (corner_rules_reached p n \<and> isLeftSquareCorner p \<and> \<not> isHat n \<and> (isPreviousConnection n \<or> isNextConnection n)
      \<longrightarrow> getInRowSpacing c (Some p) (Some n) = notchOffset n)
   \<and> (corner_rules_reached p n \<and> \<not> (isLeftSquareCorner p \<and> (isHat n \<or> isPreviousConnection n \<or> isNextConnection n)) \<and> isLeftRoundedCorner p
      \<longrightarrow> getInRowSpacing c (Some p) (Some n) = notchOffset n - CORNER_RADIUS c)
   \<and> (corner_rules_reached p n \<and> \<not> (isLeftSquareCorner p \<and> (isHat n \<or> isPreviousConnection n \<or> isNextConnection n)) \<and> \<not> isLeftRoundedCorner p \<and> (\<not> isInput p \<and> \<not> isInput n \<and> isEditable p = isEditable n)
      \<longrightarrow> getInRowSpacing c (Some p) (Some n) = LARGE_PADDING c)
   \<and> (corner_rules_reached p n \<and> \<not> (isLeftSquareCorner p \<and> (isHat n \<or> isPreviousConnection n \<or> isNextConnection n)) \<and> \<not> isLeftRoundedCorner p \<and> \<not> (\<not> isInput p \<and> \<not> isInput n \<and> isEditable p = isEditable n) \<and> isJaggedEdge n
      \<longrightarrow> getInRowSpacing c (Some p) (Some n) = LARGE_PADDING c)
   \<and> (corner_rules_reached p n \<and> \<not> (isLeftSquareCorner p \<and> (isHat n \<or> isPreviousConnection n \<or> isNextConnection n)) \<and> \<not> isLeftRoundedCorner p \<and> \<not> (\<not> isInput p \<and> \<not> isInput n \<and> isEditable p = isEditable n) \<and> \<not> isJaggedEdge n
      \<longrightarrow> getInRowSpacing c (Some p) (Some n) = MEDIUM_PADDING c)
   \<and> (\<not> matches_enumerated_rule prv nxt
      \<longrightarrow> getInRowSpacing c prv nxt = MEDIUM_PADDING c)"
  by (intro conjI)
     (rule row_start_rule1,
      rule row_start_rule2,
      rule row_start_rule3,
      rule row_start_rule4,
      rule row_start_rule5,
      rule row_end_rule1,
      rule row_end_rule2,
      rule row_end_rule3,
      rule row_end_rule4,
      rule row_end_rule5,
      rule row_end_rule6,
      rule row_end_rule7,
      rule input_end_rule1,
      rule input_end_rule2,
      rule input_end_rule3,
      rule before_input_rule1,
      rule before_input_rule2,
      rule before_input_rule3,
      rule before_input_rule4,
      rule before_input_rule5,
      rule before_input_rule6,
      rule before_input_rule7,
      rule pair_rule1,
      rule pair_rule2,
      rule pair_rule3,
      rule pair_rule4,
      rule pair_rule5,
      rule pair_rule6,
      rule pair_rule7,
      rule pair_rule8,
      rule pair_rule9,
      rule fall_through_rule)

theorem getInRowSpacing_rule_table_witness:
  "getInRowSpacing example_constants None (Some editable_field) = 5
   \<and> getInRowSpacing example_constants None (Some inline_input) = 8
   \<and> getInRowSpacing example_constants None (Some statement_input) = 20
   \<and> getInRowSpacing example_constants None (Some label_field) = 10
   \<and> getInRowSpacing example_constants None None = 10
   \<and> getInRowSpacing example_constants (Some editable_field) None = 5
   \<and> getInRowSpacing example_constants (Some icon_elem) None = 21
   \<and> getInRowSpacing example_constants (Some hat_elem) None = 0
   \<and> getInRowSpacing example_constants (Some previous_connection) None = 10
   \<and> getInRowSpacing example_constants (Some round_corner) None = 12
   \<and> getInRowSpacing example_constants (Some jagged_edge) None = 0
   \<and> getInRowSpacing example_constants (Some label_field) None = 10
   \<and> getInRowSpacing example_constants (Some external_input) None = 0
   \<and> getInRowSpacing example_constants (Some inline_input) None = 10
   \<and> getInRowSpacing example_constants (Some statement_input) None = 0
   \<and> getInRowSpacing example_constants (Some editable_field) (Some inline_input) = 3
   \<and> getInRowSpacing example_constants (Some editable_field) (Some external_input) = 3
   \<and> getInRowSpacing example_constants (Some editable_field) (Some statement_input) = 9
   \<and> getInRowSpacing example_constants (Some label_field) (Some inline_input) = 8
   \<and> getInRowSpacing example_constants (Some label_field) (Some external_input) = 8
   \<and> getInRowSpacing example_constants (Some label_field) (Some statement_input) = 10
   \<and> getInRowSpacing example_constants (Some label_field) (Some plain_input) = 9
   \<and> getInRowSpacing example_constants (Some icon_elem) (Some label_field) = 10
   \<and> getInRowSpacing example_constants (Some inline_input) (Some editable_field) = 5
   \<and> getInRowSpacing example_constants (Some inline_input) (Some label_field) = 10
   \<and> getInRowSpacing example_constants (Some square_corner) (Some hat_elem) = 0
   \<and> getInRowSpacing example_constants (Some square_corner) (Some previous_connection) = 15
   \<and> getInRowSpacing example_constants (Some round_corner) (Some previous_connection) = 7
   \<and> getInRowSpacing example_constants (Some label_field) (Some label_field) = 10
   \<and> getInRowSpacing example_constants (Some editable_field) (Some jagged_edge) = 10
   \<and> getInRowSpacing example_constants (Some external_input) (Some label_field) = 5
   \<and> getInRowSpacing example_constants (Some editable_field) (Some label_field) = 5"
proof -
  have w0: "getInRowSpacing example_constants None (Some editable_field) = 5"
    using getInRowSpacing_rule_table [where c = example_constants and n = editable_field]
    by (simp add: witness_simps)
  have w1: "getInRowSpacing example_constants None (Some inline_input) = 8"
    using getInRowSpacing_rule_table [where c = example_constants and n = inline_input]
    by (simp add: witness_simps)
  have w2: "getInRowSpacing example_constants None (Some statement_input) = 20"
    using getInRowSpacing_rule_table [where c = example_constants and n = statement_input]
    by (simp add: witness_simps)
  have w3: "getInRowSpacing example_constants None (Some label_field) = 10"
    using getInRowSpacing_rule_table [where c = example_constants and n = label_field]
    by (simp add: witness_simps)
  have w4: "getInRowSpacing example_constants None None = 10"
    using getInRowSpacing_rule_table [where c = example_constants]
    by (simp add: witness_simps)
  have w5: "getInRowSpacing example_constants (Some editable_field) None = 5"
    using getInRowSpacing_rule_table [where c = example_constants and p = editable_field]
    by (simp add: witness_simps)
  have w6: "getInRowSpacing example_constants (Some icon_elem) None = 21"
    using getInRowSpacing_rule_table [where c = example_constants and p = icon_elem]
    by (simp add: witness_simps)
  have w7: "getInRowSpacing example_constants (Some hat_elem) None = 0"
    using getInRowSpacing_rule_table [where c = example_constants and p = hat_elem]
    by (simp add: witness_simps)
  have w8: "getInRowSpacing example_constants (Some previous_connection) None = 10"
    using getInRowSpacing_rule_table [where c = example_constants and p = previous_connection]
    by (simp add: witness_simps)
  have w9: "getInRowSpacing example_constants (Some round_corner) None = 12"
    using getInRowSpacing_rule_table [where c = example_constants and p = round_corner]
    by (simp add: witness_simps)
  have w10: "getInRowSpacing example_constants (Some jagged_edge) None = 0"
    using getInRowSpacing_rule_table [where c = example_constants and p = jagged_edge]
    by (simp add: witness_simps)
  have w11: "getInRowSpacing example_constants (Some label_field) None = 10"
    using getInRowSpacing_rule_table [where c = example_constants and p = label_field]
    by (simp add: witness_simps)
  have w12: "getInRowSpacing example_constants (Some external_input) None = 0"
    using getInRowSpacing_rule_table [where c = example_constants and p = external_input]
    by (simp add: witness_simps)
  have w13: "getInRowSpacing example_constants (Some inline_input) None = 10"
    using getInRowSpacing_rule_table [where c = example_constants and p = inline_input]
    by (simp add: witness_simps)
  have w14: "getInRowSpacing example_constants (Some statement_input) None = 0"
    using getInRowSpacing_rule_table [where c = example_constants and p = statement_input]
    by (simp add: witness_simps)
  have w15: "getInRowSpacing example_constants (Some editable_field) (Some inline_input) = 3"
    using getInRowSpacing_rule_table [where c = example_constants and p = editable_field and n = inline_input]
    by (simp add: witness_simps)
  have w16: "getInRowSpacing example_constants (Some editable_field) (Some external_input) = 3"
    using getInRowSpacing_rule_table [where c = example_constants and p = editable_field and n = external_input]
    by (simp add: witness_simps)
  have w17: "getInRowSpacing example_constants (Some editable_field) (Some statement_input) = 9"
    using getInRowSpacing_rule_table [where c = example_constants and p = editable_field and n = statement_input]
    by (simp add: witness_simps)
  have w18: "getInRowSpacing example_constants (Some label_field) (Some inline_input) = 8"
    using getInRowSpacing_rule_table [where c = example_constants and p = label_field and n = inline_input]
    by (simp add: witness_simps)
  have w19: "getInRowSpacing example_constants (Some label_field) (Some external_input) = 8"
    using getInRowSpacing_rule_table [where c = example_constants and p = label_field and n = external_input]
    by (simp add: witness_simps)
  have w20: "getInRowSpacing example_constants (Some label_field) (Some statement_input) = 10"
    using getInRowSpacing_rule_table [where c = example_constants and p = label_field and n = statement_input]
    by (simp add: witness_simps)
  have w21: "getInRowSpacing example_constants (Some label_field) (Some plain_input) = 9"
    using getInRowSpacing_rule_table [where c = example_constants and p = label_field and n = plain_input]
    by (simp add: witness_simps)
  have w22: "getInRowSpacing example_constants (Some icon_elem) (Some label_field) = 10"
    using getInRowSpacing_rule_table [where c = example_constants and p = icon_elem and n = label_field]
    by (simp add: witness_simps)
  have w23: "getInRowSpacing example_constants (Some inline_input) (Some editable_field) = 5"
    using getInRowSpacing_rule_table [where c = example_constants and p = inline_input and n = editable_field]
    by (simp add: witness_simps)
  have w24: "getInRowSpacing example_constants (Some inline_input) (Some label_field) = 10"
    using getInRowSpacing_rule_table [where c = example_constants and p = inline_input and n = label_field]
    by (simp add: witness_simps)
  have w25: "getInRowSpacing example_constants (Some square_corner) (Some hat_elem) = 0"
    using getInRowSpacing_rule_table [where c = example_constants and p = square_corner and n = hat_elem]
    by (simp add: witness_simps)
  have w26: "getInRowSpacing example_constants (Some square_corner) (Some previous_connection) = 15"
    using getInRowSpacing_rule_table [where c = example_constants and p = square_corner and n = previous_connection]
    by (simp add: witness_simps)
  have w27: "getInRowSpacing example_constants (Some round_corner) (Some previous_connection) = 7"
    using getInRowSpacing_rule_table [where c = example_constants and p = round_corner and n = previous_connection]
    by (simp add: witness_simps)
  have w28: "getInRowSpacing example_constants (Some label_field) (Some label_field) = 10"
    using getInRowSpacing_rule_table [where c = example_constants and p = label_field and n = label_field]
    by (simp add: witness_simps)
  have w29: "getInRowSpacing example_constants (Some editable_field) (Some jagged_edge) = 10"
    using getInRowSpacing_rule_table [where c = example_constants and p = editable_field and n = jagged_edge]
    by (simp add: witness_simps)
  have w30: "getInRowSpacing example_constants (Some external_input) (Some label_field) = 5"
    using getInRowSpacing_rule_table [where c = example_constants and p = external_input and n = label_field]
    by (simp add: witness_simps)
  have w31: "getInRowSpacing example_constants (Some editable_field) (Some label_field) = 5"
    using getInRowSpacing_rule_table [where c = example_constants and prv = "Some editable_field" and nxt = "Some label_field"]
    by (simp add: witness_simps)
  show ?thesis
    by (intro conjI)
       (rule w0,
        rule w1,
        rule w2,
        rule w3,
        rule w4,
        rule w5,
        rule w6,
        rule w7,
        rule w8,
        rule w9,
        rule w10,
        rule w11,
        rule w12,
        rule w13,
        rule w14,
        rule w15,
        rule w16,
        rule w17,
        rule w18,
        rule w19,
        rule w20,
        rule w21,
        rule w22,
        rule w23,
        rule w24,
        rule w25,
        rule w26,
        rule w27,
        rule w28,
        rule w29,
        rule w30,
        rule w31)
qed

lemmas example_conns = origin_connection_def far_connection_def unrendered_here_def
  unrendered_away_def RenderedConnection_def example_parent_def example_child_def
  unrendered_child_def

subsection \<open>Flipping the paths for RTL\<close>

text \<open>
  Claim C7 says that two calls of \<^verbatim>\<open>flipRTL\<close> restore the transform strings
  of the three paths as they were before the first. They do not: on a path
  object as constructed, the primary and the light path have no transform,
  and after two calls both carry the mirror.
\<close>

theorem flipRTL_twice_counterexample:
  "transforms (flipRTL (flipRTL PathObject)) \<noteq> transforms PathObject"
  by (simp add: transforms_def flipRTL_def PathObject_def setAttribute_def)

text \<open>
  Claim C7, amended. \<^verbatim>\<open>flipRTL\<close> sets the three transforms to fixed strings,
  so it is idempotent: a second call changes nothing. After any number of
  calls, zero included, the dark path's transform starts with the (1,1)
  translation.
\<close>

theorem flipRTL_idempotent:
  "flipRTL (flipRTL po) = flipRTL po
   \<and> transforms (flipRTL po)
       = (Some ''translate(1,1) scale(-1 1)'', Some ''scale(-1 1)'', Some ''scale(-1 1)'')
   \<and> carries_translation PathObject
   \<and> carries_translation (flipRTL po)
   \<and> carries_translation (flipRTL (flipRTL po))"
  by (simp add: transforms_def flipRTL_def PathObject_def setAttribute_def
        carries_translation_def)

subsection \<open>Rendering on connect and disconnect\<close>

text \<open>
  Claim C5. When both source blocks are rendered, \<^verbatim>\<open>connect_\<close> makes exactly
  one \<^verbatim>\<open>render()\<close> call: on the child block when the superior connection is
  a next or previous statement connection, on the parent block otherwise.
\<close>

theorem connect_single_render:
  "rendered (sourceBlock this) \<and> rendered (sourceBlock childConnection) \<longrightarrow>
     filter is_render (connect this childConnection) =
       (if conn_type this = NEXT_STATEMENT \<or> conn_type this = PREVIOUS_STATEMENT
        then [Render (block_id (sourceBlock childConnection)) None]
        else [Render (block_id (sourceBlock this)) None])"
  by (simp add: connect_def is_render_def Let_def)

theorem connect_single_render_witness:
  "rendered (sourceBlock origin_connection) \<and> rendered (sourceBlock far_connection)
   \<and> filter is_render (connect origin_connection far_connection) = [Render 2 None]
   \<and> filter is_render (connect (origin_connection\<lparr>conn_type := INPUT_VALUE\<rparr>) far_connection)
       = [Render 1 None]"
proof -
  have h: "rendered (sourceBlock origin_connection) \<and> rendered (sourceBlock far_connection)"
    by (simp add: example_conns)
  show ?thesis
    using h connect_single_render [of origin_connection far_connection]
      connect_single_render [of "origin_connection\<lparr>conn_type := INPUT_VALUE\<rparr>" far_connection]
    by (simp add: example_conns)
qed

text \<open>
  Claim C6 says that \<^verbatim>\<open>disconnectInternal_\<close> refreshes the disabled state on
  both sides. With both blocks rendered, no \<^verbatim>\<open>updateDisabled\<close> call is made on
  the parent block.
\<close>

theorem disconnectInternal_counterexample:
  "UpdateDisabled (block_id example_parent)
     \<notin> set (disconnectInternal example_parent example_child)"
  by (simp add: disconnectInternal_def example_parent_def example_child_def)

text \<open>
  Claim C6, amended. \<^verbatim>\<open>disconnectInternal_\<close> calls \<^verbatim>\<open>render()\<close> on each side
  that is rendered, the parent first, and \<^verbatim>\<open>updateDisabled()\<close> on the child
  block only, when the child is rendered.
\<close>

theorem disconnectInternal_calls:
  "filter is_render (disconnectInternal parentBlock childBlock) =
     (if rendered parentBlock then [Render (block_id parentBlock) None] else [])
     @ (if rendered childBlock then [Render (block_id childBlock) None] else [])
   \<and> filter is_updateDisabled (disconnectInternal parentBlock childBlock) =
     (if rendered childBlock then [UpdateDisabled (block_id childBlock)] else [])"
  by (simp add: disconnectInternal_def is_render_def is_updateDisabled_def)

subsection \<open>Distance and the radius filter\<close>

text \<open>
  Claim C8. \<^verbatim>\<open>distanceFrom\<close> is the Euclidean distance of the two
  connections' coordinates, 5 for (0,0) and (3,4); \<^verbatim>\<open>isConnectionAllowed\<close>
  is false when the distance exceeds \<open>maxRadius\<close> and is the superclass's
  compatibility check otherwise.
\<close>

theorem distanceFrom_isConnectionAllowed:
  "distanceFrom a b = sqrt ((conn_x a - conn_x b)\<^sup>2 + (conn_y a - conn_y b)\<^sup>2)
   \<and> (conn_x a = 0 \<and> conn_y a = 0 \<and> conn_x b = 3 \<and> conn_y b = 4 \<longrightarrow> distanceFrom a b = 5)
   \<and> (r < distanceFrom a b \<longrightarrow> isConnectionAllowed compatible a b (Some r) = False)
   \<and> (\<not> r < distanceFrom a b
        \<longrightarrow> isConnectionAllowed compatible a b (Some r) = compatible a b)"
proof (intro conjI impI)
  show "distanceFrom a b = sqrt ((conn_x a - conn_x b)\<^sup>2 + (conn_y a - conn_y b)\<^sup>2)"
    by (simp add: distanceFrom_def Let_def power2_eq_square)
next
  assume "conn_x a = 0 \<and> conn_y a = 0 \<and> conn_x b = 3 \<and> conn_y b = 4"
  then have "distanceFrom a b = sqrt (5\<^sup>2)"
    by (simp add: distanceFrom_def Let_def)
  then show "distanceFrom a b = 5" by simp
next
  assume "r < distanceFrom a b"
  then show "isConnectionAllowed compatible a b (Some r) = False"
    by (simp add: isConnectionAllowed_def)
next
  assume "\<not> r < distanceFrom a b"
  then show "isConnectionAllowed compatible a b (Some r) = compatible a b"
    by (simp add: isConnectionAllowed_def)
qed

theorem distanceFrom_isConnectionAllowed_witness:
  "distanceFrom origin_connection far_connection = 5
   \<and> isConnectionAllowed always_compatible origin_connection far_connection (Some 10)
   \<and> \<not> isConnectionAllowed always_compatible origin_connection far_connection (Some 4)"
proof -
  have c: "conn_x origin_connection = 0 \<and> conn_y origin_connection = 0
      \<and> conn_x far_connection = 3 \<and> conn_y far_connection = 4"
    by (simp add: example_conns)
  have d: "distanceFrom origin_connection far_connection = 5"
    using distanceFrom_isConnectionAllowed [of origin_connection far_connection] c by blast
  have "isConnectionAllowed always_compatible origin_connection far_connection (Some 10)
          = always_compatible origin_connection far_connection"
    using distanceFrom_isConnectionAllowed
      [of origin_connection far_connection 10 always_compatible] d by simp
  moreover have "isConnectionAllowed always_compatible origin_connection far_connection (Some 4)
          = False"
    using distanceFrom_isConnectionAllowed
      [of origin_connection far_connection 4 always_compatible] d by simp
  ultimately show ?thesis using d by (simp add: always_compatible_def)
qed

subsection \<open>Contract violations\<close>

lemma indexOf_absent: "w \<notin> set ws \<Longrightarrow> indexOf ws w = - 1"
  by (induction ws) (auto simp add: Let_def)

text \<open>
  Claim C9 says that \<^verbatim>\<open>tighten_\<close> throws whenever the target block has no
  SVG root. When the connection already sits on its target, the method
  returns without asking for the root, and nothing is thrown.
\<close>

theorem tighten_aligned_counterexample:
  "svgRoot (sourceBlock unrendered_here) = None
   \<and> tighten origin_connection (Some unrendered_here) = Inr NoMove"
  by (simp add: tighten_def example_conns)

text \<open>
  Claim C9, amended. \<^verbatim>\<open>tighten_\<close> throws when the connection is away from
  its target and the target block has no SVG root, and returns without a
  move when the two coincide; \<^verbatim>\<open>respawnShadow_\<close> throws when its guard holds
  and no target block exists after the superclass has respawned the shadow;
  \<^verbatim>\<open>unsubscribeWorkspace\<close> throws for a workspace that is not subscribed. A
  throw ends the operation: the result is the error alone.
\<close>

theorem contract_violations_throw:
  "((conn_x t \<noteq> conn_x this \<or> conn_y t \<noteq> conn_y this) \<and> svgRoot (sourceBlock t) = None
      \<longrightarrow> tighten this (Some t) = Inl BlockNotRendered)
   \<and> (conn_x t = conn_x this \<and> conn_y t = conn_y this
      \<longrightarrow> tighten this (Some t) = Inr NoMove)
   \<and> (hasWorkspace \<and> shadow \<and> recordUndo
      \<longrightarrow> respawnShadow this hasWorkspace shadow recordUndo None = Inl ShadowNotRespawned)
   \<and> (workspace \<notin> set (subscribedWorkspaces tm)
      \<longrightarrow> unsubscribeWorkspace workspace tm = Inl WorkspaceNotSubscribed)"
  by (auto simp add: tighten_def respawnShadow_def unsubscribeWorkspace_def Let_def
        indexOf_absent)

theorem contract_violations_throw_witness:
  "tighten origin_connection (Some unrendered_away) = Inl BlockNotRendered
   \<and> tighten origin_connection (Some unrendered_here) = Inr NoMove
   \<and> respawnShadow origin_connection True True True None = Inl ShadowNotRespawned
   \<and> unsubscribeWorkspace 7 (subscribeWorkspace 5 ThemeManager) = Inl WorkspaceNotSubscribed"
proof -
  have a: "(conn_x unrendered_away \<noteq> conn_x origin_connection
            \<or> conn_y unrendered_away \<noteq> conn_y origin_connection)
           \<and> svgRoot (sourceBlock unrendered_away) = None"
    by (simp add: example_conns)
  have b: "conn_x unrendered_here = conn_x origin_connection
           \<and> conn_y unrendered_here = conn_y origin_connection"
    by (simp add: example_conns)
  have w: "(7::nat) \<notin> set (subscribedWorkspaces (subscribeWorkspace 5 ThemeManager))"
    by (simp add: subscribeWorkspace_def ThemeManager_def)
  show ?thesis
    using a b w
      contract_violations_throw [of unrendered_away origin_connection True True True 7
        "subscribeWorkspace 5 ThemeManager"]
      contract_violations_throw [of unrendered_here origin_connection True True True 7
        "subscribeWorkspace 5 ThemeManager"]
    by blast
qed

subsection \<open>The connection database under \<^verbatim>\<open>moveTo\<close> and \<^verbatim>\<open>setHidden\<close>\<close>

lemma in_database_cong:
  "conn_id a = conn_id b \<Longrightarrow> in_database a db = in_database b db"
  by (simp add: in_database_def)

lemma no_stale_entry_iff:
  "no_stale_entry conn db =
     (\<forall>e \<in> set db. fst e = conn_id conn \<longrightarrow> snd e = (conn_x conn, conn_y conn))"
  by (auto simp add: no_stale_entry_def filter_empty_conv)

lemma absent_no_stale: "\<not> in_database conn db \<Longrightarrow> no_stale_entry conn db"
  unfolding no_stale_entry_iff in_database_def by (metis image_eqI)

lemma current_entry:
  assumes "in_database conn db" and "no_stale_entry conn db"
  shows "(conn_id conn, conn_x conn, conn_y conn) \<in> set db"
proof -
  obtain e where e: "e \<in> set db" "fst e = conn_id conn"
    using assms(1) by (auto simp add: in_database_def)
  then have "snd e = (conn_x conn, conn_y conn)"
    using assms(2) by (simp add: no_stale_entry_iff)
  then have "e = (conn_id conn, conn_x conn, conn_y conn)"
    using e(2) by (cases e) simp
  then show ?thesis using e(1) by simp
qed

lemma addConnection_props:
  assumes "addConnection db conn = (conn1, db1)"
  shows "inDB conn1 \<and> in_database conn1 db1
    \<and> hidden conn1 = hidden conn \<and> conn_id conn1 = conn_id conn
    \<and> conn_x conn1 = conn_x conn \<and> conn_y conn1 = conn_y conn
    \<and> (no_stale_entry conn db \<longrightarrow> no_stale_entry conn1 db1)"
proof -
  have c: "conn1 = conn\<lparr>inDB := True\<rparr>"
    and d: "set db1 = insert (conn_id conn, conn_x conn, conn_y conn) (set db)"
    using assms by (auto simp add: addConnection_def set_insort_key)
  have "in_database conn1 db1" unfolding in_database_def d c by simp
  moreover have "no_stale_entry conn db \<longrightarrow> no_stale_entry conn1 db1"
    unfolding no_stale_entry_iff d c by simp
  ultimately show ?thesis using c by simp
qed

lemma removeConnection_props:
  assumes "removeConnection db conn = (conn1, db1)" and "no_stale_entry conn db"
  shows "\<not> inDB conn1 \<and> \<not> in_database conn1 db1
    \<and> hidden conn1 = hidden conn \<and> conn_id conn1 = conn_id conn
    \<and> conn_x conn1 = conn_x conn \<and> conn_y conn1 = conn_y conn
    \<and> no_stale_entry conn1 db1"
proof -
  have c: "conn1 = conn\<lparr>inDB := False\<rparr>"
    and d: "db1 = filter (\<lambda>e. e \<noteq> (conn_id conn, conn_x conn, conn_y conn)) db"
    using assms(1) by (auto simp add: removeConnection_def)
  have n: "\<not> in_database conn1 db1"
  proof
    assume "in_database conn1 db1"
    then obtain e where e: "e \<in> set db1" "fst e = conn_id conn"
      using c by (auto simp add: in_database_def)
    then have m: "e \<in> set db" "e \<noteq> (conn_id conn, conn_x conn, conn_y conn)"
      using d by simp_all
    then have "snd e = (conn_x conn, conn_y conn)"
      using assms(2) e(2) by (simp add: no_stale_entry_iff)
    then have "e = (conn_id conn, conn_x conn, conn_y conn)"
      using e(2) by (cases e) simp
    then show False using m(2) by simp
  qed
  then have "no_stale_entry conn1 db1" by (rule absent_no_stale)
  then show ?thesis using n c by simp
qed

lemma moveTo_props:
  assumes c: "consistent (this, db)"
  shows "step_ok this (moveTo x y (this, db))
    \<and> hidden (fst (moveTo x y (this, db))) = hidden this
    \<and> conn_x (fst (moveTo x y (this, db))) = x \<and> conn_y (fst (moveTo x y (this, db))) = y"
proof -
  obtain this0 db0 where
    r: "(if inDB this then removeConnection db this else (this, db)) = (this0, db0)"
    by (cases "if inDB this then removeConnection db this else (this, db)")
  have p0: "\<not> in_database this0 db0 \<and> conn_id this0 = conn_id this
      \<and> hidden this0 = hidden this \<and> \<not> inDB this0"
  proof (cases "inDB this")
    case True
    then show ?thesis using r c removeConnection_props [of db this this0 db0]
      by (simp add: consistent_def)
  next
    case False
    then show ?thesis using r c by (auto simp add: consistent_def)
  qed
  let ?t2 = "this0\<lparr>conn_x := x, conn_y := y\<rparr>"
  have absent: "\<not> in_database ?t2 db0"
    using p0 in_database_cong [of ?t2 this0 db0] by simp
  have ns: "no_stale_entry ?t2 db0" using absent by (rule absent_no_stale)
  have res: "moveTo x y (this, db)
      = (if \<not> hidden ?t2 then addConnection db0 ?t2 else (?t2, db0))"
    using r by (simp add: moveTo_def Let_def)
  show ?thesis
  proof (cases "hidden this0")
    case True
    then have e: "moveTo x y (this, db) = (?t2, db0)" using res by simp
    show ?thesis using e ns absent p0 True
      by (simp add: step_ok_def consistent_def settled_def)
  next
    case False
    obtain this1 db1 where a: "addConnection db0 ?t2 = (this1, db1)"
      by (cases "addConnection db0 ?t2")
    then have e: "moveTo x y (this, db) = (this1, db1)" using res False by simp
    show ?thesis using e addConnection_props [OF a] ns p0 False
      by (simp add: step_ok_def consistent_def settled_def)
  qed
qed

lemma setHidden_props:
  assumes c: "consistent (this, db)"
  shows "step_ok this (setHidden h (this, db)) \<and> hidden (fst (setHidden h (this, db))) = h"
proof -
  let ?t = "this\<lparr>hidden := h\<rparr>"
  have c1: "inDB ?t = in_database ?t db \<and> no_stale_entry ?t db"
    using c by (simp add: consistent_def in_database_def no_stale_entry_def)
  consider (rem) "h \<and> inDB this" | (add) "\<not> h \<and> \<not> inDB this"
    | (keep) "\<not> (h \<and> inDB this) \<and> \<not> (\<not> h \<and> \<not> inDB this)" by blast
  then show ?thesis
  proof cases
    case rem
    obtain this1 db1 where r: "removeConnection db ?t = (this1, db1)"
      by (cases "removeConnection db ?t")
    then have e: "setHidden h (this, db) = (this1, db1)"
      using rem by (simp add: setHidden_def Let_def)
    show ?thesis using e removeConnection_props [OF r] c1 rem
      by (simp add: step_ok_def consistent_def settled_def)
  next
    case add
    obtain this1 db1 where a: "addConnection db ?t = (this1, db1)"
      by (cases "addConnection db ?t")
    then have e: "setHidden h (this, db) = (this1, db1)"
      using add by (simp add: setHidden_def Let_def)
    show ?thesis using e addConnection_props [OF a] add c1
      by (simp add: step_ok_def consistent_def settled_def)
  next
    case keep
    then have e: "setHidden h (this, db) = (?t, db)"
      by (auto simp add: setHidden_def Let_def)
    show ?thesis using e keep c1
      by (auto simp add: step_ok_def consistent_def settled_def)
  qed
qed

lemma do_call_props:
  assumes "consistent s"
  shows "step_ok (fst s) (do_call k s)"
proof -
  obtain this db where s: "s = (this, db)" by (cases s)
  show ?thesis
    using assms s moveTo_props [of this db] setHidden_props [of this db]
    by (cases k) simp_all
qed

lemma do_calls_props:
  assumes "step_ok this s"
  shows "step_ok this (do_calls ks s)"
  using assms
proof (induction ks arbitrary: s)
  case Nil
  then show ?case by simp
next
  case (Cons k ks)
  have "step_ok (fst s) (do_call k s)" using Cons.prems do_call_props by (simp add: step_ok_def)
  then have "step_ok this (do_call k s)" using Cons.prems by (simp add: step_ok_def)
  then show ?case using Cons.IH by simp
qed

text \<open>
  Claim C2. From a state in which the membership flag agrees with the
  database and no entry of the connection is stale (a connection as
  constructed, not yet in the database, is one), after any sequence of one
  or more \<^verbatim>\<open>moveTo\<close> and \<^verbatim>\<open>setHidden\<close> calls the connection is in the
  database exactly when it is not hidden, the flag still agrees, and no
  entry of the connection carries other coordinates than its current ones:
  when it is not hidden, its entry is filed under them. \<^verbatim>\<open>moveTo\<close> sets the
  coordinates it is given and leaves the hidden flag as it is; it removes
  the entry while the connection still has the coordinates the entry is
  filed under, so after a move to other coordinates no entry under the old
  ones is left.
\<close>

theorem moveTo_setHidden_invariant:
  assumes "inDB this = in_database this db" and "no_stale_entry this db"
    and "do_calls (k # ks) (this, db) = (this1, db1)"
  shows "in_database this1 db1 = (\<not> hidden this1)
         \<and> inDB this1 = in_database this1 db1
         \<and> no_stale_entry this1 db1
         \<and> conn_id this1 = conn_id this
         \<and> (\<not> hidden this1 \<longrightarrow> (conn_id this1, conn_x this1, conn_y this1) \<in> set db1)
         \<and> conn_x (fst (moveTo x y (this, db))) = x
         \<and> conn_y (fst (moveTo x y (this, db))) = y
         \<and> hidden (fst (moveTo x y (this, db))) = hidden this
         \<and> ((x, y) \<noteq> (conn_x this, conn_y this) \<longrightarrow>
              (conn_id this, conn_x this, conn_y this) \<notin> set (snd (moveTo x y (this, db))))"
proof -
  have c: "consistent (this, db)" using assms(1,2) by (simp add: consistent_def)
  have "step_ok this (do_call k (this, db))" using do_call_props [OF c, of k] by simp
  then have "step_ok this (do_calls ks (do_call k (this, db)))" by (rule do_calls_props)
  then have inv: "in_database this1 db1 = (\<not> hidden this1)
         \<and> inDB this1 = in_database this1 db1
         \<and> no_stale_entry this1 db1
         \<and> conn_id this1 = conn_id this"
    using assms(3) by (simp add: step_ok_def consistent_def settled_def)
  then have cur: "\<not> hidden this1 \<longrightarrow> (conn_id this1, conn_x this1, conn_y this1) \<in> set db1"
    using current_entry [of this1 db1] by blast
  obtain this2 db2 where m: "moveTo x y (this, db) = (this2, db2)"
    by (cases "moveTo x y (this, db)")
  have mp: "no_stale_entry this2 db2 \<and> conn_id this2 = conn_id this
      \<and> conn_x this2 = x \<and> conn_y this2 = y \<and> hidden this2 = hidden this"
    using moveTo_props [OF c, of x y] m by (simp add: step_ok_def consistent_def)
  have old: "(x, y) \<noteq> (conn_x this, conn_y this) \<longrightarrow>
      (conn_id this, conn_x this, conn_y this) \<notin> set db2"
  proof (intro impI notI)
    assume d: "(x, y) \<noteq> (conn_x this, conn_y this)"
      and e: "(conn_id this, conn_x this, conn_y this) \<in> set db2"
    have "snd (conn_id this, conn_x this, conn_y this) = (conn_x this2, conn_y this2)"
      using mp e no_stale_entry_iff [of this2 db2] by (metis fst_conv)
    then show False using d mp by simp
  qed
  show ?thesis using inv cur mp old m by simp
qed

theorem moveTo_setHidden_invariant_witness:
  "do_calls [MoveTo 3 4, SetHidden True, MoveTo 5 6, SetHidden False] (origin_connection, [])
     = (origin_connection\<lparr>conn_x := 5, conn_y := 6, inDB := True\<rparr>, [(10, 5, 6)])
   \<and> in_database (origin_connection\<lparr>conn_x := 5, conn_y := 6, inDB := True\<rparr>) [(10, 5, 6)]
   \<and> \<not> hidden (origin_connection\<lparr>conn_x := 5, conn_y := 6, inDB := True\<rparr>)
   \<and> no_stale_entry (origin_connection\<lparr>conn_x := 5, conn_y := 6, inDB := True\<rparr>) [(10, 5, 6)]
   \<and> do_calls [MoveTo 3 4] (origin_connection\<lparr>inDB := True\<rparr>, [(10, 0, 0), (11, 1, 1)])
     = (origin_connection\<lparr>conn_x := 3, conn_y := 4, inDB := True\<rparr>, [(11, 1, 1), (10, 3, 4)])
   \<and> (10, 0, 0) \<notin> set (snd (moveTo 3 4
          (origin_connection\<lparr>inDB := True\<rparr>, [(10, 0, 0), (11, 1, 1)])))"
proof -
  have a: "inDB origin_connection = in_database origin_connection []"
    by (simp add: in_database_def origin_connection_def RenderedConnection_def)
  have b: "no_stale_entry origin_connection []" by (simp add: no_stale_entry_def)
  have r: "do_calls [MoveTo 3 4, SetHidden True, MoveTo 5 6, SetHidden False]
             (origin_connection, [])
           = (origin_connection\<lparr>conn_x := 5, conn_y := 6, inDB := True\<rparr>, [(10, 5, 6)])"
    by (simp add: moveTo_def setHidden_def addConnection_def removeConnection_def
          origin_connection_def RenderedConnection_def Let_def)
  let ?indexed = "origin_connection\<lparr>inDB := True\<rparr>"
  have a1: "inDB ?indexed = in_database ?indexed [(10, 0, 0), (11, 1, 1)]"
    by (simp add: in_database_def origin_connection_def RenderedConnection_def)
  have b1: "no_stale_entry ?indexed [(10, 0, 0), (11, 1, 1)]"
    by (simp add: no_stale_entry_def origin_connection_def RenderedConnection_def)
  have r1: "do_calls [MoveTo 3 4] (?indexed, [(10, 0, 0), (11, 1, 1)])
      = (origin_connection\<lparr>conn_x := 3, conn_y := 4, inDB := True\<rparr>, [(11, 1, 1), (10, 3, 4)])"
    by (simp add: moveTo_def addConnection_def removeConnection_def
          origin_connection_def RenderedConnection_def Let_def)
  have d: "((3::real), (4::real)) \<noteq> (conn_x ?indexed, conn_y ?indexed)"
    by (simp add: origin_connection_def RenderedConnection_def)
  have "(conn_id ?indexed, conn_x ?indexed, conn_y ?indexed)
      \<notin> set (snd (moveTo 3 4 (?indexed, [(10, 0, 0), (11, 1, 1)])))"
    using moveTo_setHidden_invariant [OF a1 b1 r1, of 3 4] d by blast
  then have old: "(10, 0, 0) \<notin> set (snd (moveTo 3 4 (?indexed, [(10, 0, 0), (11, 1, 1)])))"
    by (simp add: origin_connection_def RenderedConnection_def)
  show ?thesis
    using moveTo_setHidden_invariant [OF a b r, of 3 4] r r1 old
    by (simp add: origin_connection_def RenderedConnection_def)
qed

subsection \<open>The trailing spacer of \<^verbatim>\<open>addElemSpacing_\<close>\<close>

lemma hasExternalInputs_loop_iff:
  "hasExternalInputs_loop acc rs = (acc \<or> (\<exists>r \<in> set rs. hasExternalInput r))"
  by (induction rs arbitrary: acc) auto

lemma addElemSpacing_row_trailing:
  assumes "endsWithElemSpacer r"
  shows "js_last (elements (addElemSpacing_row c ext r)) =
     Some (InRowSpacer c (getInRowSpacing c (js_last (elements r)) None
        + (if ext \<and> hasDummyInput r then TAB_WIDTH c else 0)))"
  using assms
  by (simp add: addElemSpacing_row_def Let_def js_last_def)

text \<open>
  Claim C10. In a row that ends with an element spacer, the trailing spacer
  has the pairwise width \<^verbatim>\<open>getInRowSpacing_(last, null)\<close>, plus \<open>TAB_WIDTH\<close>
  when some row of the block has an external input and the row has a dummy
  input; with no external input in any row it is the pairwise width.
\<close>

theorem addElemSpacing_trailing_spacer:
  assumes "i < length (rows info)" and "endsWithElemSpacer (rows info ! i)"
  shows "js_last (elements (rows (addElemSpacing c info) ! i)) =
     Some (InRowSpacer c
       (getInRowSpacing c (js_last (elements (rows info ! i))) None
        + (if (\<exists>r \<in> set (rows info). hasExternalInput r) \<and> hasDummyInput (rows info ! i)
           then TAB_WIDTH c else 0)))"
  using assms
  by (simp add: addElemSpacing_def Let_def addElemSpacing_row_trailing
        hasExternalInputs_loop_iff)

theorem addElemSpacing_trailing_spacer_witness:
  "js_last (elements (rows (addElemSpacing example_constants example_info) ! 0))
     = Some (InRowSpacer example_constants 18)
   \<and> js_last (elements (rows (addElemSpacing example_constants
         (example_info\<lparr>rows := [example_input_row]\<rparr>)) ! 0))
     = Some (InRowSpacer example_constants 10)"
proof -
  have a: "0 < length (rows example_info)" by (simp add: example_info_def)
  have b: "endsWithElemSpacer (rows example_info ! 0)"
    by (simp add: example_info_def example_input_row_def)
  have a1: "0 < length (rows (example_info\<lparr>rows := [example_input_row]\<rparr>))" by simp
  have b1: "endsWithElemSpacer (rows (example_info\<lparr>rows := [example_input_row]\<rparr>) ! 0)"
    by (simp add: example_input_row_def)
  have g: "getInRowSpacing example_constants (Some label_field) None = 10"
    by (simp add: getInRowSpacing_def type_tests example_elems truthy_def
          example_constants_def)
  show ?thesis
    using addElemSpacing_trailing_spacer [OF a b, of example_constants]
      addElemSpacing_trailing_spacer [OF a1 b1, of example_constants] g
    by (simp add: example_info_def example_input_row_def example_external_row_def
          js_last_def example_constants_def)
qed

subsection \<open>Alignment padding\<close>

lemma first_spacer_from_bounds:
  "first_spacer_from i es = Some j
     \<Longrightarrow> i \<le> j \<and> j < i + length es \<and> is_spacer_elem (es ! (j - i))"
proof (induction es arbitrary: i)
  case Nil
  then show ?case by simp
next
  case (Cons e es)
  show ?case
  proof (cases "is_spacer_elem e")
    case True
    then show ?thesis using Cons.prems by simp
  next
    case False
    then have "first_spacer_from (Suc i) es = Some j" using Cons.prems by simp
    then have "Suc i \<le> j \<and> j < Suc i + length es \<and> is_spacer_elem (es ! (j - Suc i))"
      by (rule Cons.IH)
    then show ?thesis by (auto simp add: nth_Cons')
  qed
qed

lemma last_spacer_from_bounds:
  "last_spacer_from i es = Some j
     \<Longrightarrow> i \<le> j \<and> j < i + length es \<and> is_spacer_elem (es ! (j - i))"
proof (induction es arbitrary: i)
  case Nil
  then show ?case by simp
next
  case (Cons e es)
  show ?case
  proof (cases "last_spacer_from (Suc i) es")
    case None
    then show ?thesis using Cons.prems by (auto split: if_splits)
  next
    case (Some k)
    then have "k = j" using Cons.prems by simp
    then have "last_spacer_from (Suc i) es = Some j" using Some by simp
    then have "Suc i \<le> j \<and> j < Suc i + length es \<and> is_spacer_elem (es ! (j - Suc i))"
      by (rule Cons.IH)
    then show ?thesis by (auto simp add: nth_Cons')
  qed
qed

lemma spacer_elem_Some: "is_spacer_elem e \<Longrightarrow> e \<noteq> None"
  by (cases e) (simp_all add: is_spacer_elem_def)

lemma getFirstSpacer_Some:
  "getFirstSpacer r = Some i \<Longrightarrow> i < length (elements r) \<and> elements r ! i \<noteq> None"
  using first_spacer_from_bounds [of 0 "elements r" i] spacer_elem_Some
  by (auto simp add: getFirstSpacer_def)

lemma getLastSpacer_Some:
  "getLastSpacer r = Some i \<Longrightarrow> i < length (elements r) \<and> elements r ! i \<noteq> None"
  using last_spacer_from_bounds [of 0 "elements r" i] spacer_elem_Some
  by (auto simp add: getLastSpacer_def)

lemma width_at_add_width_same:
  "i < length (elements r) \<Longrightarrow> elements r ! i \<noteq> None \<Longrightarrow>
     width_at (add_width i d r) i = width_at r i + d"
  by (auto simp add: width_at_def add_width_def)

lemma addAlignmentPadding_padded_as:
  assumes f: "getFirstSpacer r = Some fi" and l: "getLastSpacer r = Some li"
  shows "\<exists>r1. addAlignmentPadding r m = Inr r1 \<and> padded_as r m fi li r1"
proof -
  let ?r1 = "if hasExternalInput r \<or> hasStatement r
             then r\<lparr>widthWithConnectedBlocks := widthWithConnectedBlocks r + m\<rparr> else r"
  have e1: "elements ?r1 = elements r" "row_width ?r1 = row_width r" "align ?r1 = align r"
    by simp_all
  have w1: "\<And>j. width_at ?r1 j = width_at r j" by (simp add: width_at_def)
  have fi: "fi < length (elements ?r1) \<and> elements ?r1 ! fi \<noteq> None"
    using getFirstSpacer_Some [OF f] by simp
  have li: "li < length (elements ?r1) \<and> elements ?r1 ! li \<noteq> None"
    using getLastSpacer_Some [OF l] by simp
  consider (left) "align r = Some ALIGN_LEFT \<or> align r = None"
    | (centre) "align r = Some ALIGN_CENTRE" | (right) "align r = Some ALIGN_RIGHT"
    by (cases "align r") (auto intro: alignment.exhaust)
  then show ?thesis
  proof cases
    case left
    then have "addAlignmentPadding r m
        = Inr ((add_width li m ?r1)\<lparr>row_width := row_width (add_width li m ?r1) + m\<rparr>)"
      using f l by (auto simp add: addAlignmentPadding_def Let_def spacer_add_width_def)
    moreover have "padded_as r m fi li
        ((add_width li m ?r1)\<lparr>row_width := row_width (add_width li m ?r1) + m\<rparr>)"
      using left li width_at_add_width_same [of li ?r1 m] w1
      by (auto simp add: padded_as_def width_at_def add_width_def)
    ultimately show ?thesis by blast
  next
    case right
    then have "addAlignmentPadding r m
        = Inr ((add_width fi m ?r1)\<lparr>row_width := row_width (add_width fi m ?r1) + m\<rparr>)"
      using f l by (auto simp add: addAlignmentPadding_def Let_def spacer_add_width_def)
    moreover have "padded_as r m fi li
        ((add_width fi m ?r1)\<lparr>row_width := row_width (add_width fi m ?r1) + m\<rparr>)"
      using right fi width_at_add_width_same [of fi ?r1 m] w1
      by (simp add: padded_as_def width_at_def add_width_def)
    ultimately show ?thesis by blast
  next
    case centre
    let ?r2 = "add_width fi (m / 2) ?r1"
    let ?r3 = "add_width li (m / 2) ?r2"
    have "addAlignmentPadding r m = Inr (?r3\<lparr>row_width := row_width ?r3 + m\<rparr>)"
      using centre f l by (simp add: addAlignmentPadding_def Let_def spacer_add_width_def)
    moreover have "padded_as r m fi li (?r3\<lparr>row_width := row_width ?r3 + m\<rparr>)"
    proof (cases "fi = li")
      case True
      then show ?thesis using centre fi
        by (cases "elements r ! li") (auto simp add: padded_as_def width_at_def add_width_def)
    next
      case False
      then show ?thesis using centre fi li
        by (cases "elements r ! li"; cases "elements r ! fi")
           (auto simp add: padded_as_def width_at_def add_width_def)
    qed
    ultimately show ?thesis by blast
  qed
qed

text \<open>
  Claim C4. On a row that has a leading spacer \<open>fi\<close> and a trailing spacer
  \<open>li\<close>, \<^verbatim>\<open>addAlignmentPadding_\<close> returns normally and the row's width grows by
  the missing space \<open>m\<close>. Left-aligned (and with no alignment), all of \<open>m\<close>
  goes to the trailing spacer; right-aligned, all of it goes to the leading
  spacer; centred, the two spacers grow by amounts that differ by at most 1:
  by \<open>m / 2\<close> each, or by \<open>m\<close> when one spacer is both. No other element
  changes.
\<close>

theorem addAlignmentPadding_distribution:
  assumes "getFirstSpacer r = Some fi" and "getLastSpacer r = Some li"
  shows "\<exists>r1. addAlignmentPadding r m = Inr r1
    \<and> row_width r1 = row_width r + m
    \<and> length (elements r1) = length (elements r)
    \<and> (align r = Some ALIGN_LEFT \<or> align r = None \<longrightarrow>
         width_at r1 li = width_at r li + m
         \<and> (\<forall>j. j \<noteq> li \<longrightarrow> elements r1 ! j = elements r ! j))
    \<and> (align r = Some ALIGN_RIGHT \<longrightarrow>
         width_at r1 fi = width_at r fi + m
         \<and> (\<forall>j. j \<noteq> fi \<longrightarrow> elements r1 ! j = elements r ! j))
    \<and> (align r = Some ALIGN_CENTRE \<longrightarrow>
         \<bar>(width_at r1 fi - width_at r fi) - (width_at r1 li - width_at r li)\<bar> \<le> 1
         \<and> (fi \<noteq> li \<longrightarrow> width_at r1 fi = width_at r fi + m / 2
                         \<and> width_at r1 li = width_at r li + m / 2)
         \<and> (fi = li \<longrightarrow> width_at r1 fi = width_at r fi + m)
         \<and> (\<forall>j. j \<noteq> fi \<longrightarrow> j \<noteq> li \<longrightarrow> elements r1 ! j = elements r ! j))"
proof -
  obtain r1 where r1: "addAlignmentPadding r m = Inr r1" and p: "padded_as r m fi li r1"
    using addAlignmentPadding_padded_as [OF assms] by blast
  show ?thesis using r1 p unfolding padded_as_def by (intro exI [of _ r1]) simp
qed

lemma example_spacers:
  "getFirstSpacer (example_padded_row a) = Some 0
   \<and> getLastSpacer (example_padded_row a) = Some 2"
  by (simp add: getFirstSpacer_def getLastSpacer_def example_padded_row_def
        is_spacer_elem_def isSpacer_def example_spacer_def InRowSpacer_def label_field_def)

lemma example_widths:
  "width_at (example_padded_row a) 0 = 10 \<and> width_at (example_padded_row a) 2 = 10
   \<and> row_width (example_padded_row a) = 50 \<and> align (example_padded_row a) = Some a"
  by (simp add: width_at_def example_padded_row_def example_spacer_def InRowSpacer_def)

theorem addAlignmentPadding_distribution_witness:
  "(\<exists>r1. addAlignmentPadding (example_padded_row ALIGN_LEFT) 5 = Inr r1
        \<and> row_width r1 = 55 \<and> width_at r1 0 = 10 \<and> width_at r1 2 = 15)
   \<and> (\<exists>r1. addAlignmentPadding (example_padded_row ALIGN_CENTRE) 5 = Inr r1
        \<and> row_width r1 = 55 \<and> width_at r1 0 = 25 / 2 \<and> width_at r1 2 = 25 / 2)
   \<and> (\<exists>r1. addAlignmentPadding (example_padded_row ALIGN_RIGHT) 5 = Inr r1
        \<and> row_width r1 = 55 \<and> width_at r1 0 = 15 \<and> width_at r1 2 = 10)"
proof (intro conjI)
  note s = example_spacers
  show "\<exists>r1. addAlignmentPadding (example_padded_row ALIGN_LEFT) 5 = Inr r1
        \<and> row_width r1 = 55 \<and> width_at r1 0 = 10 \<and> width_at r1 2 = 15"
    using addAlignmentPadding_distribution
      [of "example_padded_row ALIGN_LEFT" 0 2 5] s [of ALIGN_LEFT] example_widths [of ALIGN_LEFT]
    by (auto simp add: width_at_def)
  show "\<exists>r1. addAlignmentPadding (example_padded_row ALIGN_CENTRE) 5 = Inr r1
        \<and> row_width r1 = 55 \<and> width_at r1 0 = 25 / 2 \<and> width_at r1 2 = 25 / 2"
    using addAlignmentPadding_distribution
      [of "example_padded_row ALIGN_CENTRE" 0 2 5] s [of ALIGN_CENTRE]
      example_widths [of ALIGN_CENTRE]
    by auto
  show "\<exists>r1. addAlignmentPadding (example_padded_row ALIGN_RIGHT) 5 = Inr r1
        \<and> row_width r1 = 55 \<and> width_at r1 0 = 15 \<and> width_at r1 2 = 10"
    using addAlignmentPadding_distribution
      [of "example_padded_row ALIGN_RIGHT" 0 2 5] s [of ALIGN_RIGHT]
      example_widths [of ALIGN_RIGHT]
    by (auto simp add: width_at_def)
qed

subsection \<open>The finalize pass\<close>

declare finalize_loop.simps [simp del]

lemma ascenderHeight_placed:
  "i < length rs \<Longrightarrow>
     ascenderHeight (rs[i := (rs ! i)\<lparr>yPos := y, xPos := x\<rparr>] ! j) = ascenderHeight (rs ! j)"
  by (cases "j = i") simp_all

lemma finalize_body_eq:
  assumes "i < length (rows info)"
  shows "finalize_body c i y w info =
     (y + visited_height c i y info, max w (widthWithConnectedBlocks (rows info ! i)),
      visited c i y info)"
proof (cases "i = bottomRow info
      \<and> y + row_height (rows info ! i) - ascenderHeight (rows info ! topRow info)
          < MIN_BLOCK_HEIGHT c")
  case True
  then show ?thesis
    using assms
    by (simp add: finalize_body_def Let_def visited_def visited_height_def
          ascenderHeight_placed)
next
  case False
  then have h: "visited_height c i y info = row_height (rows info ! i)"
    by (auto simp add: visited_height_def)
  have "finalize_body c i y w info =
      (y + row_height (rows info ! i), max w (widthWithConnectedBlocks (rows info ! i)),
       info\<lparr>rows := (rows info)[i := (rows info ! i)\<lparr>yPos := y, xPos := startX info\<rparr>]\<rparr>)"
    using assms False
    by (auto simp add: finalize_body_def Let_def ascenderHeight_placed)
  then show ?thesis by (simp add: h visited_def)
qed

lemma finalize_loop_step:
  "i < length (rows info) \<Longrightarrow>
     finalize_loop c i y w info =
       finalize_loop c (Suc i) (y + visited_height c i y info)
         (max w (widthWithConnectedBlocks (rows info ! i))) (visited c i y info)"
  by (subst finalize_loop.simps) (simp add: finalize_body_eq)

lemma finalize_loop_done:
  "\<not> i < length (rows info) \<Longrightarrow> finalize_loop c i y w info = (y, w, info)"
  by (subst finalize_loop.simps) simp

lemma visited_frame:
  "length (rows (visited c i y info)) = length (rows info)
   \<and> topRow (visited c i y info) = topRow info
   \<and> bottomRow (visited c i y info) = bottomRow info
   \<and> startX (visited c i y info) = startX info"
  by (simp add: visited_def)

lemma visited_other: "j \<noteq> i \<Longrightarrow> rows (visited c i y info) ! j = rows info ! j"
  by (simp add: visited_def)

lemma visited_same:
  "i < length (rows info) \<Longrightarrow>
     rows (visited c i y info) ! i =
       (rows info ! i)\<lparr>yPos := y, xPos := startX info,
                        row_height := visited_height c i y info\<rparr>"
  by (simp add: visited_def)

text \<open>The invariant of the loop, from position \<open>i\<close> with cursor \<open>y\<close>.\<close>

lemma finalize_loop_frame:
  "length (rows (snd (snd (finalize_loop c i y w info)))) = length (rows info)
   \<and> topRow (snd (snd (finalize_loop c i y w info))) = topRow info
   \<and> bottomRow (snd (snd (finalize_loop c i y w info))) = bottomRow info
   \<and> startX (snd (snd (finalize_loop c i y w info))) = startX info"
proof (induction "length (rows info) - i" arbitrary: i y w info)
  case 0
  then show ?case by (simp add: finalize_loop_done)
next
  case (Suc n)
  then have i: "i < length (rows info)" by simp
  have "n = length (rows (visited c i y info)) - Suc i"
    using Suc.hyps(2) by (simp add: visited_frame)
  from Suc.hyps(1) [OF this] show ?case
    by (simp add: finalize_loop_step [OF i] visited_frame)
qed

lemma finalize_loop_before:
  "j < i \<Longrightarrow> rows (snd (snd (finalize_loop c i y w info))) ! j = rows info ! j"
proof (induction "length (rows info) - i" arbitrary: i y w info)
  case 0
  then show ?case by (simp add: finalize_loop_done)
next
  case (Suc n)
  then have i: "i < length (rows info)" by simp
  have "n = length (rows (visited c i y info)) - Suc i"
    using Suc.hyps(2) by (simp add: visited_frame)
  then have "rows (snd (snd (finalize_loop c (Suc i) (y + visited_height c i y info)
            (max w (widthWithConnectedBlocks (rows info ! i))) (visited c i y info)))) ! j
        = rows (visited c i y info) ! j"
    using Suc.prems by (intro Suc.hyps(1)) simp_all
  then show ?case using Suc.prems
    by (simp add: finalize_loop_step [OF i] visited_other)
qed

lemma visited_height_other:
  "i \<noteq> bottomRow info \<Longrightarrow> visited_height c i y info = row_height (rows info ! i)"
  by (simp add: visited_height_def)

lemma visited_height_bottom:
  "visited_height c (bottomRow info) y info =
     row_height (rows info ! bottomRow info)
     + max 0 (MIN_BLOCK_HEIGHT c
              - (y + row_height (rows info ! bottomRow info)
                 - ascenderHeight (rows info ! topRow info)))"
  by (simp add: visited_height_def max_def)

lemma visited_kept:
  assumes "i < length (rows info)"
  shows "ascenderHeight (rows (visited c i y info) ! j) = ascenderHeight (rows info ! j)
    \<and> descenderHeight (rows (visited c i y info) ! j) = descenderHeight (rows info ! j)
    \<and> (j \<noteq> bottomRow info \<longrightarrow>
         row_height (rows (visited c i y info) ! j) = row_height (rows info ! j))"
  using assms by (cases "j = i") (simp_all add: visited_def visited_height_other)

lemma finalize_loop_kept:
  "ascenderHeight (rows (snd (snd (finalize_loop c i y w info))) ! j)
      = ascenderHeight (rows info ! j)
   \<and> descenderHeight (rows (snd (snd (finalize_loop c i y w info))) ! j)
      = descenderHeight (rows info ! j)
   \<and> (j \<noteq> bottomRow info \<longrightarrow>
        row_height (rows (snd (snd (finalize_loop c i y w info))) ! j)
          = row_height (rows info ! j))"
proof (induction "length (rows info) - i" arbitrary: i y w info)
  case 0
  then show ?case by (simp add: finalize_loop_done)
next
  case (Suc n)
  then have i: "i < length (rows info)" by simp
  let ?v = "visited c i y info"
  let ?R = "snd (snd (finalize_loop c (Suc i) (y + visited_height c i y info)
            (max w (widthWithConnectedBlocks (rows info ! i))) ?v))"
  have "n = length (rows ?v) - Suc i"
    using Suc.hyps(2) by (simp add: visited_frame)
  then have "ascenderHeight (rows ?R ! j) = ascenderHeight (rows ?v ! j)
      \<and> descenderHeight (rows ?R ! j) = descenderHeight (rows ?v ! j)
      \<and> (j \<noteq> bottomRow ?v \<longrightarrow> row_height (rows ?R ! j) = row_height (rows ?v ! j))"
    by (rule Suc.hyps(1))
  then show ?case
    using visited_kept [OF i, of c y j]
    by (simp add: finalize_loop_step [OF i] visited_frame)
qed

lemma finalize_loop_positions:
  "(\<forall>j. i \<le> j \<and> j < length (rows info) \<longrightarrow>
       yPos (rows (snd (snd (finalize_loop c i y w info))) ! j)
         = y + (\<Sum>k = i..<j. row_height (rows (snd (snd (finalize_loop c i y w info))) ! k)))
   \<and> (i \<le> length (rows info) \<longrightarrow>
       fst (finalize_loop c i y w info)
         = y + (\<Sum>k = i..<length (rows info).
                  row_height (rows (snd (snd (finalize_loop c i y w info))) ! k)))"
proof (induction "length (rows info) - i" arbitrary: i y w info)
  case 0
  then show ?case by (simp add: finalize_loop_done)
next
  case (Suc n)
  then have i: "i < length (rows info)" by simp
  let ?v = "visited c i y info"
  let ?y1 = "y + visited_height c i y info"
  let ?L = "finalize_loop c (Suc i) ?y1 (max w (widthWithConnectedBlocks (rows info ! i))) ?v"
  let ?R = "snd (snd ?L)"
  have n: "n = length (rows ?v) - Suc i"
    using Suc.hyps(2) by (simp add: visited_frame)
  have ih: "(\<forall>j. Suc i \<le> j \<and> j < length (rows ?v) \<longrightarrow>
       yPos (rows ?R ! j) = ?y1 + (\<Sum>k = Suc i..<j. row_height (rows ?R ! k)))
     \<and> (Suc i \<le> length (rows ?v) \<longrightarrow>
       fst ?L = ?y1 + (\<Sum>k = Suc i..<length (rows ?v). row_height (rows ?R ! k)))"
    using n by (rule Suc.hyps(1))
  have eq: "finalize_loop c i y w info = ?L" by (rule finalize_loop_step [OF i])
  have at_i: "rows ?R ! i = rows ?v ! i" by (rule finalize_loop_before) simp
  then have hi: "row_height (rows ?R ! i) = visited_height c i y info"
    and yi: "yPos (rows ?R ! i) = y"
    using i by (simp_all add: visited_same)
  have len: "length (rows ?v) = length (rows info)" by (simp add: visited_frame)
  show ?case
  proof (intro conjI allI impI)
    fix j assume j: "i \<le> j \<and> j < length (rows info)"
    show "yPos (rows (snd (snd (finalize_loop c i y w info))) ! j)
         = y + (\<Sum>k = i..<j. row_height (rows (snd (snd (finalize_loop c i y w info))) ! k))"
    proof (cases "j = i")
      case True
      then show ?thesis using yi by (simp add: eq)
    next
      case False
      then have "Suc i \<le> j \<and> j < length (rows ?v)" using j len by simp
      then have "yPos (rows ?R ! j) = ?y1 + (\<Sum>k = Suc i..<j. row_height (rows ?R ! k))"
        using ih by blast
      moreover have "(\<Sum>k = i..<j. row_height (rows ?R ! k))
          = row_height (rows ?R ! i) + (\<Sum>k = Suc i..<j. row_height (rows ?R ! k))"
        using False j by (simp add: sum.atLeast_Suc_lessThan)
      ultimately show ?thesis using hi by (simp add: eq)
    qed
  next
    assume "i \<le> length (rows info)"
    have "fst ?L = ?y1 + (\<Sum>k = Suc i..<length (rows ?v). row_height (rows ?R ! k))"
      using ih i len by simp
    moreover have "(\<Sum>k = i..<length (rows info). row_height (rows ?R ! k))
          = row_height (rows ?R ! i)
            + (\<Sum>k = Suc i..<length (rows info). row_height (rows ?R ! k))"
      using i by (simp add: sum.atLeast_Suc_lessThan)
    ultimately show "fst (finalize_loop c i y w info)
         = y + (\<Sum>k = i..<length (rows info).
                  row_height (rows (snd (snd (finalize_loop c i y w info))) ! k))"
      using hi len by (simp add: eq)
  qed
qed

lemma finalize_loop_bottom:
  "i \<le> bottomRow info \<and> bottomRow info < length (rows info) \<Longrightarrow>
     row_height (rows (snd (snd (finalize_loop c i y w info))) ! bottomRow info)
       = row_height (rows info ! bottomRow info)
         + max 0 (MIN_BLOCK_HEIGHT c
                  - (y + (\<Sum>k = i..bottomRow info. row_height (rows info ! k))
                     - ascenderHeight (rows info ! topRow info)))"
proof (induction "length (rows info) - i" arbitrary: i y w info)
  case 0
  then show ?case by simp
next
  case (Suc n)
  then have i: "i < length (rows info)" by simp
  let ?b = "bottomRow info"
  let ?v = "visited c i y info"
  let ?y1 = "y + visited_height c i y info"
  let ?L = "finalize_loop c (Suc i) ?y1 (max w (widthWithConnectedBlocks (rows info ! i))) ?v"
  let ?R = "snd (snd ?L)"
  have n: "n = length (rows ?v) - Suc i"
    using Suc.hyps(2) by (simp add: visited_frame)
  have eq: "finalize_loop c i y w info = ?L" by (rule finalize_loop_step [OF i])
  show ?case
  proof (cases "i = ?b")
    case True
    have "rows ?R ! i = rows ?v ! i" by (rule finalize_loop_before) simp
    then have "row_height (rows ?R ! i) = visited_height c i y info"
      using i by (simp add: visited_same)
    then have "row_height (rows (snd (snd (finalize_loop c i y w info))) ! i)
        = visited_height c i y info"
      by (simp add: eq)
    then show ?thesis using True visited_height_bottom [of c info y] by simp
  next
    case False
    then have b: "Suc i \<le> bottomRow ?v \<and> bottomRow ?v < length (rows ?v)"
      using Suc.prems by (simp add: visited_frame)
    have ih: "row_height (rows ?R ! bottomRow ?v)
       = row_height (rows ?v ! bottomRow ?v)
         + max 0 (MIN_BLOCK_HEIGHT c
                  - (?y1 + (\<Sum>k = Suc i..bottomRow ?v. row_height (rows ?v ! k))
                     - ascenderHeight (rows ?v ! topRow ?v)))"
      using n b by (rule Suc.hyps(1))
    have s1: "(\<Sum>k = Suc i..?b. row_height (rows ?v ! k))
        = (\<Sum>k = Suc i..?b. row_height (rows info ! k))"
      by (rule sum.cong) (simp_all add: visited_other)
    have s2: "(\<Sum>k = i..?b. row_height (rows info ! k))
        = row_height (rows info ! i) + (\<Sum>k = Suc i..?b. row_height (rows info ! k))"
      using Suc.prems by (simp add: sum.atLeast_Suc_atMost)
    have k: "ascenderHeight (rows ?v ! topRow info) = ascenderHeight (rows info ! topRow info)"
      "row_height (rows ?v ! ?b) = row_height (rows info ! ?b)"
      using visited_kept [OF i, of c y] False by (simp_all add: visited_other)
    show ?thesis
      using ih s1 s2 k False
      by (simp add: eq visited_frame visited_height_other)
  qed
qed

lemma sum_list_map_nth:
  "sum_list (map f xs) = (\<Sum>k = 0..<length xs. f (xs ! k))"
  by (simp add: sum_list_sum_nth)

lemma sum_list_map_take:
  "j \<le> length xs \<Longrightarrow> sum_list (map f (take j xs)) = (\<Sum>k = 0..<j. f (xs ! k))"
  by (simp add: sum_list_sum_nth)

lemma finalize_result:
  assumes "bottomRow info < length (rows info)"
  shows "rows (finalize c info) =
      (rows (snd (snd (finalize_loop c 0 0 0 info))))
        [bottomRow info := (rows (snd (snd (finalize_loop c 0 0 0 info))) ! bottomRow info)
           \<lparr>baseline := fst (finalize_loop c 0 0 0 info)
                          - descenderHeight (rows info ! bottomRow info)\<rparr>]
    \<and> height (finalize c info) = fst (finalize_loop c 0 0 0 info)"
proof -
  obtain Y W R where l: "finalize_loop c 0 0 0 info = (Y, W, R)"
    by (cases "finalize_loop c 0 0 0 info")
  have f: "bottomRow R = bottomRow info"
    using finalize_loop_frame [of c 0 0 0 info] l by simp
  have k: "descenderHeight (rows R ! bottomRow info) = descenderHeight (rows info ! bottomRow info)"
    using finalize_loop_kept [of c 0 0 0 info "bottomRow info"] l by simp
  show ?thesis using l f k by (simp add: finalize_def Let_def)
qed

lemma finalize_row_fields:
  assumes "bottomRow info < length (rows info)"
  shows "row_height (rows (finalize c info) ! j)
        = row_height (rows (snd (snd (finalize_loop c 0 0 0 info))) ! j)
    \<and> yPos (rows (finalize c info) ! j)
        = yPos (rows (snd (snd (finalize_loop c 0 0 0 info))) ! j)
    \<and> ascenderHeight (rows (finalize c info) ! j) = ascenderHeight (rows info ! j)
    \<and> descenderHeight (rows (finalize c info) ! j) = descenderHeight (rows info ! j)
    \<and> length (rows (finalize c info)) = length (rows info)"
proof -
  have len: "length (rows (snd (snd (finalize_loop c 0 0 0 info)))) = length (rows info)"
    using finalize_loop_frame [of c 0 0 0 info] by simp
  show ?thesis
    using assms len finalize_loop_kept [of c 0 0 0 info j]
    by (cases "j = bottomRow info") (simp_all add: finalize_result)
qed

text \<open>
  Claim C3. After \<^verbatim>\<open>finalize_\<close>, the block's height is the sum of the heights
  of its rows, and the \<open>yPos\<close> of each row is the sum of the heights of the
  rows before it. Every row but the bottom row keeps its height; the bottom
  row grows by what the height up to and including it, less the top row's
  ascender, lacks to \<open>MIN_BLOCK_HEIGHT\<close>. The bottom row's baseline is the
  final cursor, the block's height, less its descender height.
\<close>

theorem finalize_heights:
  assumes t: "topRow info < length (rows info)"
    and b: "bottomRow info < length (rows info)"
  shows "length (rows (finalize c info)) = length (rows info)
    \<and> height (finalize c info) = sum_list (map row_height (rows (finalize c info)))
    \<and> (\<forall>j < length (rows info).
         yPos (rows (finalize c info) ! j)
           = sum_list (map row_height (take j (rows (finalize c info)))))
    \<and> (\<forall>j < length (rows info). j \<noteq> bottomRow info \<longrightarrow>
         row_height (rows (finalize c info) ! j) = row_height (rows info ! j))
    \<and> row_height (rows (finalize c info) ! bottomRow info)
        = row_height (rows info ! bottomRow info)
          + max 0 (MIN_BLOCK_HEIGHT c
                   - (sum_list (map row_height (take (Suc (bottomRow info)) (rows info)))
                      - ascenderHeight (rows info ! topRow info)))
    \<and> baseline (rows (finalize c info) ! bottomRow info)
        = height (finalize c info) - descenderHeight (rows (finalize c info) ! bottomRow info)"
proof -
  let ?L = "finalize_loop c 0 0 0 info"
  let ?R = "snd (snd ?L)"
  let ?F = "finalize c info"
  note ff = finalize_row_fields [OF b, of c]
  have len: "length (rows ?F) = length (rows info)" using ff by simp
  have hs: "\<And>k. row_height (rows ?F ! k) = row_height (rows ?R ! k)" using ff by simp
  have hF: "height ?F = fst ?L" using finalize_result [OF b, of c] by simp
  have "fst ?L = (\<Sum>k = 0..<length (rows info). row_height (rows ?R ! k))"
    using finalize_loop_positions [of 0 info c 0 0] by simp
  moreover have "sum_list (map row_height (rows ?F))
      = (\<Sum>k = 0..<length (rows info). row_height (rows ?R ! k))"
    unfolding sum_list_map_nth len hs ..
  ultimately have total: "height ?F = sum_list (map row_height (rows ?F))"
    using hF by simp
  have ypos: "\<forall>j < length (rows info).
         yPos (rows ?F ! j) = sum_list (map row_height (take j (rows ?F)))"
  proof (intro allI impI)
    fix j assume j: "j < length (rows info)"
    then have "yPos (rows ?R ! j) = 0 + (\<Sum>k = 0..<j. row_height (rows ?R ! k))"
      using finalize_loop_positions [of 0 info c 0 0] by simp
    moreover have "sum_list (map row_height (take j (rows ?F)))
        = (\<Sum>k = 0..<j. row_height (rows ?R ! k))"
      using j len by (subst sum_list_map_take) (simp_all only: hs less_imp_le)
    ultimately show "yPos (rows ?F ! j) = sum_list (map row_height (take j (rows ?F)))"
      using ff [of j] by simp
  qed
  have others: "\<forall>j < length (rows info). j \<noteq> bottomRow info \<longrightarrow>
         row_height (rows ?F ! j) = row_height (rows info ! j)"
    using finalize_loop_kept [of c 0 0 0 info] hs by simp
  have bottom: "row_height (rows ?F ! bottomRow info)
        = row_height (rows info ! bottomRow info)
          + max 0 (MIN_BLOCK_HEIGHT c
                   - (sum_list (map row_height (take (Suc (bottomRow info)) (rows info)))
                      - ascenderHeight (rows info ! topRow info)))"
    using finalize_loop_bottom [of 0 info c 0 0] b hs
    by (simp add: sum_list_map_take atLeastLessThanSuc_atLeastAtMost)
  have base: "baseline (rows ?F ! bottomRow info)
        = height ?F - descenderHeight (rows ?F ! bottomRow info)"
  proof -
    have "bottomRow info < length (rows ?R)"
      using b finalize_loop_frame [of c 0 0 0 info] by simp
    then have "baseline (rows ?F ! bottomRow info)
        = fst ?L - descenderHeight (rows info ! bottomRow info)"
      by (simp add: finalize_result [OF b])
    then show ?thesis using ff [of "bottomRow info"] hF by simp
  qed
  show ?thesis using len total ypos others bottom base by blast
qed

lemma example_block_finalized:
  "finalize example_constants example_block =
     \<lparr>rows = [example_row 5,
              (example_row 10)\<lparr>yPos := 5\<rparr>,
              (example_row 9)\<lparr>yPos := 15, baseline := 22\<rparr>],
      topRow = 0, bottomRow = 2, startX = 0, height = 24, widthWithChildren = 50,
      startY = 0\<rparr>"
  by (simp add: finalize_def finalize_loop.simps finalize_body_def Let_def
        example_block_def example_row_def example_constants_def)

theorem finalize_heights_witness:
  "topRow example_block < length (rows example_block)
   \<and> bottomRow example_block < length (rows example_block)
   \<and> height (finalize example_constants example_block) = 24
   \<and> map yPos (rows (finalize example_constants example_block)) = [0, 5, 15]
   \<and> map row_height (rows (finalize example_constants example_block)) = [5, 10, 9]
   \<and> baseline (rows (finalize example_constants example_block) ! 2) = 22"
  using finalize_heights [of example_block example_constants] example_block_finalized
  by (simp add: example_block_def example_row_def)

end
